theory Spec2Isabelle
  imports Main
begin

section \<open>Pull-request node: data model\<close>

text \<open>
  A shallow embedding of \<^verbatim>\<open>src/view/treeNodes/pullRequestNode.ts\<close> (class PRNode).
  Objects are records, enums and unions are datatypes, mutation is explicit state
  passing, and every throw or promise rejection is a value.
\<close>

subsection \<open>Errors, synchronous completions and promises\<close>

datatype error = Error string | TypeError string

text \<open>A settled promise: the value an \<^verbatim>\<open>await\<close> sees.\<close>

datatype 'a promise = Resolved 'a | Rejected error

text \<open>
  What a call expression does before any \<^verbatim>\<open>await\<close>: it returns a value or throws.
  A method that starts an asynchronous operation has the type
  \<open>'a promise completion\<close>: a function declared \<^verbatim>\<open>async\<close> always returns a promise
  (\<open>Returned\<close>), and a failure of the operation arrives as \<open>Returned (Rejected e)\<close>.
\<close>

datatype 'a completion = Returned 'a | Threw error

text \<open>
  \<^verbatim>\<open>await call(...)\<close>: a synchronous throw and a rejection both become an exception
  at the await; \<open>Inl\<close> is the exception.
\<close>

fun await :: "'a promise completion \<Rightarrow> error + 'a" where
  "await (Threw e) = Inl e"
| "await (Returned (Rejected e)) = Inl e"
| "await (Returned (Resolved v)) = Inr v"

text \<open>Template-literal rendering of a caught error, \<^verbatim>\<open>`${e}`\<close>.\<close>

fun error_text :: "error \<Rightarrow> string" where
  "error_text (Error m) = ''Error: '' @ m"
| "error_text (TypeError m) = ''TypeError: '' @ m"

subsection \<open>Diff hunks and file changes\<close>

datatype DiffChangeType = Context | Add | Delete | Control

record diff_line =
  dl_type :: DiffChangeType
  dl_text :: string

record diff_hunk =
  diffLines :: "diff_line list"

datatype GitChangeType = ADD | DELETE | MODIFY | RENAME

record reaction =
  r_label :: string
  r_count :: nat
  viewerHasReacted :: bool

text \<open>
  IComment (common/comment): the raw review comment. Only the fields the node reads are
  kept.
\<close>

record icomment =
  ic_id :: int
  graphNodeId :: string
  ic_body :: string
  ic_path :: "string option"
  ic_position :: "int option"
  ic_isDraft :: bool
  ic_reactions :: "reaction list option"

text \<open>
  SlimFileChange and RemoteFileChangeNode carry the first four fields;
  InMemFileChange and InMemFileChangeNode add the patch data. The two locations built by
  \<^verbatim>\<open>toPRUri\<close> for the tree are not kept: nothing in the node reads them back.
\<close>

record file_change =
  status :: GitChangeType
  fileName :: string
  previousFileName :: "string option"
  blobUrl :: string

record in_mem_file_change = file_change +
  isPartial :: bool
  patch :: string
  diffHunks :: "diff_hunk list"
  fc_comments :: "icomment list"

datatype raw_change = SlimFileChange file_change | InMemFileChange in_mem_file_change

datatype file_change_node =
    RemoteFileChangeNode file_change
  | InMemFileChangeNode in_mem_file_change

fun node_fileName :: "file_change_node \<Rightarrow> string" where
  "node_fileName (RemoteFileChangeNode c) = fileName c"
| "node_fileName (InMemFileChangeNode c) = fileName c"

fun node_status :: "file_change_node \<Rightarrow> GitChangeType" where
  "node_status (RemoteFileChangeNode c) = status c"
| "node_status (InMemFileChangeNode c) = status c"

fun node_previousFileName :: "file_change_node \<Rightarrow> string option" where
  "node_previousFileName (RemoteFileChangeNode c) = previousFileName c"
| "node_previousFileName (InMemFileChangeNode c) = previousFileName c"

fun node_blobUrl :: "file_change_node \<Rightarrow> string" where
  "node_blobUrl (RemoteFileChangeNode c) = blobUrl c"
| "node_blobUrl (InMemFileChangeNode c) = blobUrl c"

subsection \<open>URIs of pull-request documents\<close>

record pr_uri_params =
  q_fileName :: string
  q_isBase :: bool
  q_prNumber :: int
  q_baseCommit :: string
  q_headCommit :: string

text \<open>
  A \<^verbatim>\<open>vscode.Uri\<close>. The query of a PR document is the JSON of its parameters;
  \<open>uri_query\<close> is \<open>None\<close> for a query that does not parse.
\<close>

record uri =
  scheme :: string
  uri_path :: string
  uri_query :: "pr_uri_params option"

text \<open>
  Modelled from the spec: \<^verbatim>\<open>fromPRUri\<close> (common/uri) is not among the sources. It
  returns the parameters of a PR document URI, or undefined when the URI does not parse
  as one.
\<close>

definition fromPRUri :: "uri \<Rightarrow> pr_uri_params option" where
  "fromPRUri u = uri_query u"

subsection \<open>Comments and comment threads\<close>

datatype CommentMode = Editing | Preview

record comment_reaction =
  cr_label :: string
  cr_count :: nat
  authorHasReacted :: bool

text \<open>
  GHPRComment: a confirmed comment. \<^verbatim>\<open>commentId\<close> is \<^verbatim>\<open>id.toString()\<close> of the raw
  comment; the rendering is injective, so both are kept as the number. \<open>gc_parent_uri\<close>
  is \<^verbatim>\<open>comment.parent.uri\<close>.
\<close>

record ghpr_comment =
  commentId :: int
  rawComment :: icomment
  gc_parent_uri :: uri
  gc_body :: string
  gc_mode :: CommentMode
  gc_label :: "string option"
  gc_reactions :: "comment_reaction list option"

record temporary_comment =
  tc_id :: nat
  tc_body :: string
  tc_mode :: CommentMode
  tc_isDraft :: bool
  tc_author :: string
  originalComment :: "ghpr_comment option"

datatype comment = GHPRComment ghpr_comment | TemporaryComment temporary_comment

text \<open>
  GHPRCommentThread. \<open>range_start_line\<close> is \<^verbatim>\<open>thread.range.start.line\<close> (0-based);
  \<open>disposed\<close> records that \<^verbatim>\<open>dispose()\<close> was called, which takes the thread off the
  view host. The label (\<^verbatim>\<open>updateCommentThreadLabel\<close>) is presentation and is not kept.
\<close>

record comment_thread =
  threadId :: string
  thread_uri :: uri
  range_start_line :: int
  comments :: "comment list"
  isResolved :: bool
  disposed :: bool

datatype DiffSide = LEFT | RIGHT

record review_thread =
  rt_id :: string
  rt_path :: string
  rt_line :: int
  diffSide :: DiffSide
  isOutdated :: bool
  rt_isResolved :: bool
  rt_comments :: "icomment list"

record reaction_group =
  rg_content :: string
  rg_viewerHasReacted :: bool
  rg_totalCount :: nat

record text_editor =
  editor_id :: nat
  document_uri :: uri

subsection \<open>Collaborators\<close>

text \<open>
  PullRequestModel: the properties the node reads and, for each method, what a call
  does. The methods are opaque asynchronous calls of the data layer.
\<close>

record pull_request_model =
  pr_number :: int
  pr_isResolved :: bool
  hasPendingReview :: bool
  mergeBase :: "string option"
  reviewThreadsCache :: "review_thread list"
  getReviewComments :: "icomment list promise completion"
  getFileChangesInfo :: "string promise completion"
  getFile :: "string \<Rightarrow> string \<Rightarrow> string promise completion"
  createCommentReply :: "string \<Rightarrow> string \<Rightarrow> unit promise completion"
  createReviewThread :: "string \<Rightarrow> string \<Rightarrow> int \<Rightarrow> unit promise completion"
  editReviewComment :: "icomment \<Rightarrow> string \<Rightarrow> unit promise completion"
  deleteReviewComment :: "int \<Rightarrow> unit promise completion"
  validateDraftMode :: "bool promise completion"
  submitReview :: "unit promise completion"
  pr_deleteReview :: "unit promise completion"
  addCommentReaction :: "string \<Rightarrow> string \<Rightarrow> reaction_group list promise completion"
  deleteCommentReaction :: "string \<Rightarrow> string \<Rightarrow> reaction_group list promise completion"

text \<open>
  The imported helpers and the host that are not among the sources, taken as parameters:
  \<^verbatim>\<open>parseDiff\<close> and \<^verbatim>\<open>getModifiedContentFromDiffHunk\<close> (common/diffHunk),
  \<^verbatim>\<open>repository.show\<close>, \<^verbatim>\<open>vscode.Uri.joinPath(rootUri, p).fsPath\<close>,
  \<^verbatim>\<open>path.relative(rootUri.path, p)\<close> with its separator replacement, \<^verbatim>\<open>getCurrentUser\<close>, \<^verbatim>\<open>parseGraphQLReaction\<close> and
  \<^verbatim>\<open>updateCommentReactions\<close> (github/utils), and \<^verbatim>\<open>vscode.window.visibleTextEditors\<close>.
\<close>

record externals =
  parseDiff :: "string \<Rightarrow> string \<Rightarrow> raw_change list promise completion"
  getModifiedContentFromDiffHunk :: "string \<Rightarrow> string \<Rightarrow> string completion"
  repository_show :: "string \<Rightarrow> string \<Rightarrow> string promise completion"
  joinRootFsPath :: "string \<Rightarrow> string"
  relativeToRoot :: "string \<Rightarrow> string"
  currentUser :: string
  parseGraphQLReaction :: "reaction_group list \<Rightarrow> reaction list"
  updateCommentReactions :: "ghpr_comment \<Rightarrow> reaction list \<Rightarrow> ghpr_comment"
  visibleTextEditors :: "text_editor list"

subsection \<open>Observable effects and the node's state\<close>

datatype remote_call =
    GetReviewComments
  | GetFileChangesInfo
  | GetFile string string
  | CreateCommentReply string string
  | CreateReviewThread string string int
  | EditReviewComment int string
  | DeleteReviewComment int
  | ValidateDraftMode
  | SubmitReview
  | DeleteReview
  | AddCommentReaction string string
  | DeleteCommentReaction string string

datatype effect =
    Remote remote_call
  | ShowErrorMessage string
  | ShowWarningMessage string string
  | LoggerAppendLine string
  | RepositoryShow string string
  | SetContext string bool
  | RefreshThread nat
  | UnhandledRejection error

text \<open>
  The fields of PRNode that the modelled methods read and write. \<open>commentThreadCache\<close>
  holds references to thread objects; \<open>threads\<close> is the store of the thread objects
  created through the comment controller, by reference. \<open>idPool\<close> is the static counter
  of TemporaryComment. \<open>effects\<close> lists, oldest first, what the node did to its
  collaborators.
\<close>

record node_state =
  fileChanges :: "file_change_node list option"
  commentThreadCache :: "string \<rightharpoonup> nat list"
  threads :: "nat \<rightharpoonup> comment_thread"
  next_thread :: nat
  openPREditors :: "text_editor list"
  idPool :: nat
  effects :: "effect list"

definition emit :: "effect \<Rightarrow> node_state \<Rightarrow> node_state" where
  "emit e st = st\<lparr>effects := effects st @ [e]\<rparr>"

section \<open>File changes and document content\<close>

subsection \<open>resolveFileChanges and getFileChanges\<close>

definition mk_node :: "icomment list \<Rightarrow> raw_change \<Rightarrow> file_change_node" where
  "mk_node cs change =
     (case change of
        SlimFileChange c \<Rightarrow> RemoteFileChangeNode c
      | InMemFileChange c \<Rightarrow>
          InMemFileChangeNode
            (c\<lparr>fc_comments :=
                 filter (\<lambda>comment. ic_path comment = Some (fileName c) \<and> ic_position comment \<noteq> None) cs\<rparr>))"

definition resolveFileChanges ::
  "pull_request_model \<Rightarrow> externals \<Rightarrow> node_state \<Rightarrow> file_change_node list promise \<times> node_state" where
  "resolveFileChanges pr ext st =
     (if \<not> pr_isResolved pr then (Resolved [], st)
      else
        let st1 = emit (Remote GetReviewComments) st in
        case await (getReviewComments pr) of
          Inl e \<Rightarrow> (Rejected e, st1)
        | Inr cs \<Rightarrow>
            let st2 = emit (Remote GetFileChangesInfo) st1 in
            (case await (getFileChangesInfo pr) of
               Inl e \<Rightarrow> (Rejected e, st2)
             | Inr data \<Rightarrow>
                 (case mergeBase pr of
                    None \<Rightarrow> (Resolved [], st2)
                  | Some mb \<Rightarrow>
                      (case await (parseDiff ext data mb) of
                         Inl e \<Rightarrow> (Rejected e, st2)
                       | Inr rawChanges \<Rightarrow> (Resolved (map (mk_node cs) rawChanges), st2)))))"

definition getFileChanges ::
  "pull_request_model \<Rightarrow> externals \<Rightarrow> node_state \<Rightarrow> file_change_node list promise \<times> node_state" where
  "getFileChanges pr ext st =
     (case fileChanges st of
        Some fcs \<Rightarrow> (Resolved fcs, st)
      | None \<Rightarrow>
          (case resolveFileChanges pr ext st of
             (Resolved fcs, st1) \<Rightarrow> (Resolved fcs, st1\<lparr>fileChanges := Some fcs\<rparr>)
           | (Rejected e, st1) \<Rightarrow> (Rejected e, st1)))"

subsection \<open>provideDocumentContent\<close>

text \<open>\<^verbatim>\<open>Array.prototype.join(sep)\<close> on an array of strings.\<close>

fun join :: "string \<Rightarrow> string list \<Rightarrow> string" where
  "join sep [] = []"
| "join sep [x] = x"
| "join sep (x # y # ys) = x @ sep @ join sep (y # ys)"

definition newline :: string where
  "newline = [CHR 0x0A]"

text \<open>
  The two nested loops over \<^verbatim>\<open>diffHunks[i].diffLines[j]\<close>, with the array they push
  onto as accumulator. The last branch of each chain takes every remaining type.
\<close>

fun left_push_lines :: "diff_line list \<Rightarrow> string list \<Rightarrow> string list" where
  "left_push_lines [] left = left"
| "left_push_lines (diffLine # rest) left =
     left_push_lines rest
       (if dl_type diffLine = Add then left
        else if dl_type diffLine = Delete then left @ [dl_text diffLine]
        else if dl_type diffLine = Control then left
        else left @ [dl_text diffLine])"

fun left_push_hunks :: "diff_hunk list \<Rightarrow> string list \<Rightarrow> string list" where
  "left_push_hunks [] left = left"
| "left_push_hunks (h # hs) left = left_push_hunks hs (left_push_lines (diffLines h) left)"

fun right_push_lines :: "diff_line list \<Rightarrow> string list \<Rightarrow> string list" where
  "right_push_lines [] right = right"
| "right_push_lines (diffLine # rest) right =
     right_push_lines rest
       (if dl_type diffLine = Add then right @ [dl_text diffLine]
        else if dl_type diffLine = Delete then right
        else if dl_type diffLine = Control then right
        else right @ [dl_text diffLine])"

fun right_push_hunks :: "diff_hunk list \<Rightarrow> string list \<Rightarrow> string list" where
  "right_push_hunks [] right = right"
| "right_push_hunks (h # hs) right = right_push_hunks hs (right_push_lines (diffLines h) right)"

text \<open>\<^verbatim>\<open>a || b\<close> on an optional string: an absent or empty \<open>a\<close> gives \<open>b\<close>.\<close>

fun or_else :: "string option \<Rightarrow> string \<Rightarrow> string" where
  "or_else None b = b"
| "or_else (Some a) b = (if a = [] then b else a)"

fun is_remote_node :: "file_change_node \<Rightarrow> bool" where
  "is_remote_node (RemoteFileChangeNode c) = True"
| "is_remote_node (InMemFileChangeNode c) = False"

fun node_isPartial :: "file_change_node \<Rightarrow> bool" where
  "node_isPartial (RemoteFileChangeNode c) = False"
| "node_isPartial (InMemFileChangeNode c) = isPartial c"

text \<open>
  Lines 598-622: \<^verbatim>\<open>try { return this.pullRequestModel.getFile(...) } catch (e) {...}\<close>.
  The promise is returned without \<^verbatim>\<open>await\<close>, so the \<^verbatim>\<open>catch\<close> block runs only
  when the call itself throws; a promise that rejects later settles the promise of
  provideDocumentContent as it is.
\<close>

definition content_from_remote ::
  "pull_request_model \<Rightarrow> pr_uri_params \<Rightarrow> file_change_node \<Rightarrow> node_state \<Rightarrow> string promise \<times> node_state" where
  "content_from_remote pr params fileChange st =
     (let file = (if q_isBase params
                  then or_else (node_previousFileName fileChange) (node_fileName fileChange)
                  else node_fileName fileChange);
          commit = (if q_isBase params then q_baseCommit params else q_headCommit params);
          st1 = emit (Remote (GetFile file commit)) st
      in case getFile pr file commit of
           Returned p \<Rightarrow> (p, st1)
         | Threw e \<Rightarrow>
             (Resolved [],
              emit (ShowWarningMessage
                      ''Opening this file locally failed. Would you like to view it on GitHub?''
                      ''Open on GitHub'')
                (emit (LoggerAppendLine (''PR> Fetching file content failed: '' @ error_text e)) st1)))"

definition content_in_mem ::
  "externals \<Rightarrow> pr_uri_params \<Rightarrow> in_mem_file_change \<Rightarrow> node_state \<Rightarrow> string promise \<times> node_state" where
  "content_in_mem ext params fileChange st =
     (if status fileChange = ADD \<or> status fileChange = DELETE then
        (if q_isBase params
         then (Resolved (join newline (left_push_hunks (diffHunks fileChange) [])), st)
         else (Resolved (join newline (right_push_hunks (diffHunks fileChange) [])), st))
      else
        (case (if status fileChange = RENAME then previousFileName fileChange
               else Some (fileName fileChange)) of
           None \<Rightarrow> (Rejected (TypeError ''The path argument must be of type string''), st)
         | Some originalFileName \<Rightarrow>
             let originalFilePath = joinRootFsPath ext originalFileName;
                 st1 = emit (RepositoryShow (q_baseCommit params) originalFilePath) st
             in (case await (repository_show ext (q_baseCommit params) originalFilePath) of
                   Inl e \<Rightarrow> (Rejected e, st1)
                 | Inr originalContent \<Rightarrow>
                     (if q_isBase params then (Resolved originalContent, st1)
                      else (case getModifiedContentFromDiffHunk ext originalContent (patch fileChange) of
                              Returned modified \<Rightarrow> (Resolved modified, st1)
                            | Threw e \<Rightarrow> (Rejected e, st1))))))"

definition provideDocumentContent ::
  "pull_request_model \<Rightarrow> externals \<Rightarrow> uri \<Rightarrow> node_state \<Rightarrow> string promise \<times> node_state" where
  "provideDocumentContent pr ext u st =
     (case fromPRUri u of
        None \<Rightarrow> (Resolved [], st)
      | Some params \<Rightarrow>
          (case getFileChanges pr ext st of
             (Rejected e, st1) \<Rightarrow> (Rejected e, st1)
           | (Resolved fcs, st1) \<Rightarrow>
               (case find (\<lambda>contentChange. node_fileName contentChange = q_fileName params) fcs of
                  None \<Rightarrow>
                    (Resolved [],
                     emit (LoggerAppendLine (''PR> can not find content for document '' @ uri_path u)) st1)
                | Some fileChange \<Rightarrow>
                    if (q_isBase params \<and> node_status fileChange = ADD)
                       \<or> (\<not> q_isBase params \<and> node_status fileChange = DELETE)
                    then (Resolved [], st1)
                    else if is_remote_node fileChange \<or> node_isPartial fileChange
                    then content_from_remote pr params fileChange st1
                    else (case fileChange of
                            InMemFileChangeNode c \<Rightarrow> content_in_mem ext params c st1
                          | RemoteFileChangeNode c \<Rightarrow> (Resolved [], st1)))))"

fun is_Remote :: "effect \<Rightarrow> bool" where
  "is_Remote (Remote c) = True"
| "is_Remote e = False"

text \<open>What a call added to the effects of the state it started from.\<close>

definition new_effects :: "node_state \<Rightarrow> node_state \<Rightarrow> effect list" where
  "new_effects st st' = drop (length (effects st)) (effects st')"

section \<open>Comment operations\<close>

text \<open>
  The thread and the comment an operation receives are objects of the view host. They
  are passed by value and returned updated, next to the settled promise of the
  operation and the node's state.
\<close>

text \<open>
  Modelled from the spec: the constructor of TemporaryComment (github/prComment) is not
  among the sources. A temporary comment has a locally unique id, taken from the static
  counter, the body typed by the user, the draft flag and the author; it starts in
  preview mode.
\<close>

definition new_TemporaryComment ::
  "string \<Rightarrow> bool \<Rightarrow> string \<Rightarrow> ghpr_comment option \<Rightarrow> node_state \<Rightarrow> temporary_comment \<times> node_state" where
  "new_TemporaryComment input isDraft user original st =
     (\<lparr>tc_id = idPool st, tc_body = input, tc_mode = Preview, tc_isDraft = isDraft,
       tc_author = user, originalComment = original\<rparr>,
      st\<lparr>idPool := idPool st + 1\<rparr>)"

text \<open>
  Modelled from the spec: the constructor of GHPRComment (github/prComment) is not among
  the sources. A confirmed comment is materialised from the raw comment: its id, body,
  draft label and reactions are the raw comment's.
\<close>

definition new_GHPRComment :: "icomment \<Rightarrow> uri \<Rightarrow> ghpr_comment" where
  "new_GHPRComment raw parent_uri =
     \<lparr>commentId = ic_id raw, rawComment = raw, gc_parent_uri = parent_uri,
      gc_body = ic_body raw, gc_mode = Preview,
      gc_label = (if ic_isDraft raw then Some ''Pending'' else None),
      gc_reactions =
        map_option
          (map (\<lambda>r. \<lparr>cr_label = r_label r, cr_count = r_count r,
                      authorHasReacted = viewerHasReacted r\<rparr>))
          (ic_reactions raw)\<rparr>"

definition updateCommentThreadComments :: "comment_thread \<Rightarrow> comment list \<Rightarrow> comment_thread" where
  "updateCommentThreadComments thread newComments = thread\<lparr>comments := newComments\<rparr>"

definition optimisticallyAddComment ::
  "externals \<Rightarrow> comment_thread \<Rightarrow> string \<Rightarrow> bool \<Rightarrow> node_state \<Rightarrow> nat \<times> comment_thread \<times> node_state" where
  "optimisticallyAddComment ext thread input inDraft st =
     (let (comment, st1) = new_TemporaryComment input inDraft (currentUser ext) None st
      in (tc_id comment,
          updateCommentThreadComments thread (comments thread @ [TemporaryComment comment]),
          st1))"

definition optimisticallyEditComment ::
  "externals \<Rightarrow> comment_thread \<Rightarrow> ghpr_comment \<Rightarrow> node_state \<Rightarrow> nat \<times> comment_thread \<times> node_state" where
  "optimisticallyEditComment ext thread comment st =
     (let (temporaryComment, st1) =
            new_TemporaryComment (gc_body comment)
              (case gc_label comment of None \<Rightarrow> False | Some l \<Rightarrow> l \<noteq> [])
              (currentUser ext) (Some comment) st
      in (tc_id temporaryComment,
          thread\<lparr>comments :=
            map (\<lambda>c. case c of
                        GHPRComment g \<Rightarrow>
                          if commentId g = commentId comment then TemporaryComment temporaryComment else c
                      | TemporaryComment t \<Rightarrow> c)
              (comments thread)\<rparr>,
          st1))"

text \<open>\<^verbatim>\<open>reply\<close>: the first comment of the thread must be a confirmed one.\<close>

definition reply ::
  "pull_request_model \<Rightarrow> comment_thread \<Rightarrow> string \<Rightarrow> node_state \<Rightarrow> unit promise completion \<times> node_state" where
  "reply pr thread input st =
     (case comments thread of
        GHPRComment replyingTo # rest \<Rightarrow>
          (createCommentReply pr input (graphNodeId (rawComment replyingTo)),
           emit (Remote (CreateCommentReply input (graphNodeId (rawComment replyingTo)))) st)
      | _ \<Rightarrow> (Threw (Error ''Cannot respond to temporary comment''), st))"

text \<open>
  The callback of the \<^verbatim>\<open>catch\<close> blocks of createOrReplyComment and startReview: the
  temporary comment with the given id goes to editing mode, in place.
\<close>

fun mark_editing :: "nat \<Rightarrow> comment \<Rightarrow> comment" where
  "mark_editing temporaryCommentId (TemporaryComment c) =
     (if tc_id c = temporaryCommentId then TemporaryComment (c\<lparr>tc_mode := Editing\<rparr>)
      else TemporaryComment c)"
| "mark_editing temporaryCommentId (GHPRComment c) = GHPRComment c"

definition createOrReplyComment ::
  "pull_request_model \<Rightarrow> externals \<Rightarrow> comment_thread \<Rightarrow> string \<Rightarrow> bool option \<Rightarrow> node_state
     \<Rightarrow> unit promise \<times> comment_thread \<times> node_state" where
  "createOrReplyComment pr ext thread input inDraft st =
     (let hasExistingComments = length (comments thread);
          isDraft = (case inDraft of Some b \<Rightarrow> b | None \<Rightarrow> hasPendingReview pr);
          (temporaryCommentId, thread1, st1) = optimisticallyAddComment ext thread input isDraft st;
          (outcome, st2) =
            (if hasExistingComments \<noteq> 0 then
               (let (call, st') = reply pr thread1 input st1 in (await call, st'))
             else
               (let fileName = relativeToRoot ext (uri_path (thread_uri thread1)) in
                (await (createReviewThread pr input fileName (range_start_line thread1 + 1)),
                 emit (Remote (CreateReviewThread input fileName (range_start_line thread1 + 1))) st1)))
      in case outcome of
           Inr u \<Rightarrow> (Resolved (), thread1, st2)
         | Inl e \<Rightarrow>
             (Resolved (),
              thread1\<lparr>comments := map (mark_editing temporaryCommentId) (comments thread1)\<rparr>,
              emit (ShowErrorMessage (''Creating comment failed: '' @ error_text e)) st2))"

definition editComment ::
  "pull_request_model \<Rightarrow> externals \<Rightarrow> comment_thread \<Rightarrow> comment \<Rightarrow> node_state
     \<Rightarrow> unit promise \<times> comment_thread \<times> node_state" where
  "editComment pr ext thread comment st =
     (case comment of
        GHPRComment c \<Rightarrow>
          (let (temporaryCommentId, thread1, st1) = optimisticallyEditComment ext thread c st;
               st2 = emit (Remote (EditReviewComment (ic_id (rawComment c)) (gc_body c))) st1
           in case await (editReviewComment pr (rawComment c) (gc_body c)) of
                Inr u \<Rightarrow> (Resolved (), thread1, st2)
              | Inl e \<Rightarrow>
                  (Resolved (),
                   thread1\<lparr>comments :=
                     map (\<lambda>x. case x of
                                 TemporaryComment t \<Rightarrow>
                                   if tc_id t = temporaryCommentId
                                   then GHPRComment (new_GHPRComment (rawComment c) (thread_uri thread))
                                   else x
                               | GHPRComment g \<Rightarrow> x)
                       (comments thread1)\<rparr>,
                   emit (ShowErrorMessage (''Editing comment failed '' @ error_text e)) st2))
      | TemporaryComment t \<Rightarrow>
          (let (p, thread1, st1) = createOrReplyComment pr ext thread (tc_body t) None st
           in (Resolved (), thread1, st1)))"

definition deleteComment ::
  "pull_request_model \<Rightarrow> comment_thread \<Rightarrow> comment \<Rightarrow> node_state
     \<Rightarrow> unit promise \<times> comment_thread \<times> node_state" where
  "deleteComment pr thread comment st =
     (let (failure, thread1, st1) =
            (case comment of
               GHPRComment c \<Rightarrow>
                 (case await (deleteReviewComment pr (commentId c)) of
                    Inl e \<Rightarrow> (Some e, thread, emit (Remote (DeleteReviewComment (commentId c))) st)
                  | Inr u \<Rightarrow> (None, thread, emit (Remote (DeleteReviewComment (commentId c))) st))
             | TemporaryComment t \<Rightarrow>
                 (None,
                  thread\<lparr>comments :=
                    filter (\<lambda>c. case c of
                                  TemporaryComment x \<Rightarrow> tc_id x = tc_id t
                                | GHPRComment g \<Rightarrow> False)
                      (comments thread)\<rparr>,
                  st))
      in case failure of
           Some e \<Rightarrow> (Rejected e, thread1, st1)
         | None \<Rightarrow>
             (case await (validateDraftMode pr) of
                Inl e \<Rightarrow> (Rejected e, thread1, emit (Remote ValidateDraftMode) st1)
              | Inr b \<Rightarrow> (Resolved (), thread1, emit (Remote ValidateDraftMode) st1)))"

definition setContextKey :: "bool \<Rightarrow> node_state \<Rightarrow> node_state" where
  "setContextKey inDraftMode st = emit (SetContext ''prInDraft'' inDraftMode) st"

definition startReview ::
  "pull_request_model \<Rightarrow> externals \<Rightarrow> comment_thread \<Rightarrow> string \<Rightarrow> node_state
     \<Rightarrow> unit promise \<times> comment_thread \<times> node_state" where
  "startReview pr ext thread input st =
     (let (temporaryCommentId, thread1, st1) = optimisticallyAddComment ext thread input True st;
          fileName = relativeToRoot ext (uri_path (thread_uri thread1));
          st2 = emit (Remote (CreateReviewThread input fileName (range_start_line thread1 + 1))) st1
      in case await (createReviewThread pr input fileName (range_start_line thread1 + 1)) of
           Inr u \<Rightarrow> (Resolved (), thread1, setContextKey True st2)
         | Inl e \<Rightarrow>
             (Resolved (),
              thread1\<lparr>comments := map (mark_editing temporaryCommentId) (comments thread1)\<rparr>,
              emit (ShowErrorMessage (''Starting a review failed: '' @ error_text e)) st2))"

definition finishReview ::
  "pull_request_model \<Rightarrow> externals \<Rightarrow> comment_thread \<Rightarrow> string \<Rightarrow> node_state
     \<Rightarrow> unit promise \<times> comment_thread \<times> node_state" where
  "finishReview pr ext thread input st =
     (let (p, thread1, st1) = createOrReplyComment pr ext thread input (Some False) st
      in case p of
           Rejected e \<Rightarrow>
             (Resolved (), thread1,
              emit (ShowErrorMessage (''Failed to submit the review: '' @ error_text e)) st1)
         | Resolved u \<Rightarrow>
             (let st2 = emit (Remote SubmitReview) st1
              in case await (submitReview pr) of
                   Inr v \<Rightarrow> (Resolved (), thread1, setContextKey False st2)
                 | Inl e \<Rightarrow>
                     (Resolved (), thread1,
                      emit (ShowErrorMessage (''Failed to submit the review: '' @ error_text e)) st2)))"

definition deleteReview :: "pull_request_model \<Rightarrow> node_state \<Rightarrow> unit promise \<times> node_state" where
  "deleteReview pr st =
     (let st1 = emit (Remote DeleteReview) st
      in case await (pr_deleteReview pr) of
           Inl e \<Rightarrow> (Rejected e, st1)
         | Inr u \<Rightarrow> (Resolved (), setContextKey False st1))"

section \<open>Reactions\<close>

text \<open>\<^verbatim>\<open>Array.prototype.findIndex\<close>: the first index whose element passes, or -1.\<close>

fun findIndex :: "('a \<Rightarrow> bool) \<Rightarrow> 'a list \<Rightarrow> int" where
  "findIndex P [] = - 1"
| "findIndex P (x # xs) =
     (if P x then 0 else (let i = findIndex P xs in if i < 0 then - 1 else i + 1))"

text \<open>
  A write through the reference that \<^verbatim>\<open>Array.prototype.find\<close> returned: the first
  element that passes is replaced.
\<close>

fun update_first :: "('a \<Rightarrow> bool) \<Rightarrow> ('a \<Rightarrow> 'a) \<Rightarrow> 'a list \<Rightarrow> 'a list" where
  "update_first P f [] = []"
| "update_first P f (x # xs) = (if P x then f x # xs else x # update_first P f xs)"

definition findMatchingFileNode ::
  "pull_request_model \<Rightarrow> externals \<Rightarrow> uri \<Rightarrow> node_state \<Rightarrow> (error + in_mem_file_change) \<times> node_state" where
  "findMatchingFileNode pr ext u st =
     (case fromPRUri u of
        None \<Rightarrow> (Inl (Error (uri_path u @ '' is not valid PR document'')), st)
      | Some params \<Rightarrow>
          (case getFileChanges pr ext st of
             (Rejected e, st1) \<Rightarrow> (Inl e, st1)
           | (Resolved fcs, st1) \<Rightarrow>
               (case find (\<lambda>change. node_fileName change = q_fileName params) fcs of
                  None \<Rightarrow> (Inl (Error ''No matching file found''), st1)
                | Some (RemoteFileChangeNode c) \<Rightarrow>
                    (Inl (Error ''Comments not supported on remote file changes''), st1)
                | Some (InMemFileChangeNode c) \<Rightarrow> (Inr c, st1))))"

fun comment_commentId :: "comment \<Rightarrow> int option" where
  "comment_commentId (GHPRComment c) = Some (commentId c)"
| "comment_commentId (TemporaryComment c) = None"

text \<open>
  The last loop of toggleReaction: every cached thread of the file that holds the comment
  has its comment list assigned to itself, which only makes the view host redraw it.
\<close>

definition refresh_threads :: "string \<Rightarrow> int \<Rightarrow> node_state \<Rightarrow> node_state" where
  "refresh_threads file cid st =
     (case commentThreadCache st file of
        None \<Rightarrow> st
      | Some hs \<Rightarrow>
          fold (\<lambda>h s. case threads s h of
                         None \<Rightarrow> s
                       | Some thread \<Rightarrow>
                           if find (\<lambda>cmt. comment_commentId cmt = Some cid) (comments thread) \<noteq> None
                           then emit (RefreshThread h) s else s)
            hs st)"

text \<open>
  Lines 861-864: the reaction is added when the comment has a reaction list and the list
  holds no reaction with this label that the author has made; in every other case it is
  removed.
\<close>

definition adds_reaction :: "ghpr_comment \<Rightarrow> string \<Rightarrow> bool" where
  "adds_reaction comment reaction_label =
     (case gc_reactions comment of
        None \<Rightarrow> False
      | Some rs \<Rightarrow> find (\<lambda>ret. cr_label ret = reaction_label \<and> authorHasReacted ret) rs = None)"

definition toggleReaction ::
  "pull_request_model \<Rightarrow> externals \<Rightarrow> ghpr_comment \<Rightarrow> string \<Rightarrow> node_state
     \<Rightarrow> unit promise \<times> ghpr_comment \<times> node_state" where
  "toggleReaction pr ext comment reaction_label st =
     (if scheme (gc_parent_uri comment) \<noteq> ''pr'' then (Resolved (), comment, st)
      else case fromPRUri (gc_parent_uri comment) of
        None \<Rightarrow> (Resolved (), comment, st)
      | Some params \<Rightarrow>
          (case findMatchingFileNode pr ext (gc_parent_uri comment) st of
             (Inl e, st1) \<Rightarrow> (Rejected e, comment, st1)
           | (Inr fileChange, st1) \<Rightarrow>
               (let commentIndex = findIndex (\<lambda>c. ic_id c = commentId comment) (fc_comments fileChange)
                in if commentIndex < 0 then (Resolved (), comment, st1)
                   else
                     (let node = graphNodeId (rawComment comment);
                          (response, st2) =
                            (if adds_reaction comment reaction_label
                             then (await (addCommentReaction pr node reaction_label),
                                   emit (Remote (AddCommentReaction node reaction_label)) st1)
                             else (await (deleteCommentReaction pr node reaction_label),
                                   emit (Remote (DeleteCommentReaction node reaction_label)) st1))
                      in case response of
                           Inl e \<Rightarrow> (Rejected e, comment, st2)
                         | Inr reactionGroups \<Rightarrow>
                             (let reactions = parseGraphQLReaction ext reactionGroups;
                                  i = nat commentIndex;
                                  changed = fileChange\<lparr>fc_comments :=
                                    (fc_comments fileChange)
                                      [i := (fc_comments fileChange ! i)\<lparr>ic_reactions := Some reactions\<rparr>]\<rparr>;
                                  st3 = st2\<lparr>fileChanges :=
                                    map_option
                                      (update_first (\<lambda>change. node_fileName change = q_fileName params)
                                         (\<lambda>n. InMemFileChangeNode changed))
                                      (fileChanges st2)\<rparr>
                              in (Resolved (),
                                  updateCommentReactions ext comment reactions,
                                  refresh_threads (q_fileName params) (commentId comment) st3))))))"

section \<open>The comment thread cache\<close>

text \<open>
  The comment controller is taken as registered: \<open>commentThreadCache\<close> of the state is
  the cache of \<^verbatim>\<open>_prCommentController\<close>, and the \<^verbatim>\<open>await\<close> of
  \<^verbatim>\<open>resolvePRCommentController\<close> returns it at once.
\<close>

text \<open>
  Modelled from the spec: \<^verbatim>\<open>createVSCodeCommentThreadForReviewThread\<close> (github/utils)
  is not among the sources. It creates a thread on the view host for a review thread,
  with the review thread's id, resolution flag and comments, and returns it. The new
  object gets the next free reference of the store.
\<close>

definition createVSCodeCommentThreadForReviewThread ::
  "uri \<Rightarrow> int \<Rightarrow> review_thread \<Rightarrow> node_state \<Rightarrow> nat \<times> node_state" where
  "createVSCodeCommentThreadForReviewThread u line thread st =
     (next_thread st,
      st\<lparr>threads := (threads st)(next_thread st \<mapsto>
             \<lparr>threadId = rt_id thread, thread_uri = u, range_start_line = line,
              comments = map (\<lambda>c. GHPRComment (new_GHPRComment c u)) (rt_comments thread),
              isResolved = rt_isResolved thread, disposed = False\<rparr>),
         next_thread := next_thread st + 1\<rparr>)"

definition dispose :: "nat \<Rightarrow> node_state \<Rightarrow> node_state" where
  "dispose h st =
     (case threads st h of
        None \<Rightarrow> st
      | Some t \<Rightarrow> st\<lparr>threads := (threads st)(h \<mapsto> t\<lparr>disposed := True\<rparr>)\<rparr>)"

definition getPREditors :: "pull_request_model \<Rightarrow> text_editor list \<Rightarrow> text_editor list" where
  "getPREditors pr editors =
     filter (\<lambda>editor.
               if scheme (document_uri editor) \<noteq> ''pr'' then False
               else (case fromPRUri (document_uri editor) of
                       None \<Rightarrow> False
                     | Some params \<Rightarrow> if q_prNumber params \<noteq> pr_number pr then False else True))
       editors"

text \<open>
  Modelled from the spec: \<^verbatim>\<open>groupBy\<close> (common/utils) is not among the sources.
  \<open>threadsByPath ts p\<close> is the entry of \<^verbatim>\<open>groupBy(reviewThreads, thread => thread.path)\<close>
  under the key \<open>p\<close>: the threads of that path in their order, and no entry when there
  is none.
\<close>

definition threadsByPath :: "review_thread list \<Rightarrow> string \<Rightarrow> review_thread list option" where
  "threadsByPath reviewThreads p =
     (let ts = filter (\<lambda>thread. rt_path thread = p) reviewThreads
      in if ts = [] then None else Some ts)"

text \<open>The \<^verbatim>\<open>map\<close> callback of lines 320-332 and 363-375, over the matching threads.\<close>

fun create_threads :: "uri \<Rightarrow> review_thread list \<Rightarrow> node_state \<Rightarrow> nat list \<times> node_state" where
  "create_threads u [] st = ([], st)"
| "create_threads u (thread # rest) st =
     (let (h, st1) = createVSCodeCommentThreadForReviewThread u (rt_line thread - 1) thread st;
          (hs, st2) = create_threads u rest st1
      in (h # hs, st2))"

text \<open>
  The \<^verbatim>\<open>forEach\<close> callback of lines 311-334 and 354-377. Both callers pass editors that
  getPREditors kept, whose URI parses.
\<close>

definition open_editor_threads :: "review_thread list \<Rightarrow> text_editor \<Rightarrow> node_state \<Rightarrow> node_state" where
  "open_editor_threads reviewThreads editor st =
     (case fromPRUri (document_uri editor) of
        None \<Rightarrow> st
      | Some params \<Rightarrow>
          (case threadsByPath reviewThreads (q_fileName params) of
             None \<Rightarrow> st
           | Some ts \<Rightarrow>
               (let (hs, st1) =
                      create_threads (document_uri editor)
                        (filter (\<lambda>thread. (diffSide thread = LEFT \<and> q_isBase params)
                                          \<or> (diffSide thread = RIGHT \<and> \<not> q_isBase params)) ts)
                        st
                in st1\<lparr>commentThreadCache := (commentThreadCache st1)(q_fileName params \<mapsto> hs)\<rparr>)))"

definition initializeThreadsInOpenEditors ::
  "pull_request_model \<Rightarrow> text_editor list \<Rightarrow> node_state \<Rightarrow> node_state" where
  "initializeThreadsInOpenEditors pr editors st =
     (let reviewThreads = reviewThreadsCache pr;
          prEditors = getPREditors pr editors
      in fold (open_editor_threads reviewThreads) prEditors (st\<lparr>openPREditors := prEditors\<rparr>))"

definition close_editor_threads :: "text_editor \<Rightarrow> node_state \<Rightarrow> node_state" where
  "close_editor_threads editor st =
     (case fromPRUri (document_uri editor) of
        None \<Rightarrow> st
      | Some params \<Rightarrow>
          (let hs = (case commentThreadCache st (q_fileName params) of None \<Rightarrow> [] | Some l \<Rightarrow> l);
               st1 = fold dispose hs st
           in st1\<lparr>commentThreadCache := (commentThreadCache st1)(q_fileName params := None)\<rparr>))"

definition onDidChangeOpenEditors ::
  "pull_request_model \<Rightarrow> text_editor list \<Rightarrow> node_state \<Rightarrow> node_state" where
  "onDidChangeOpenEditors pr editors st =
     (let prEditors = getPREditors pr editors;
          removed = filter (\<lambda>x. x \<notin> set prEditors) (openPREditors st);
          added = filter (\<lambda>x. x \<notin> set (openPREditors st)) prEditors;
          st1 = fold close_editor_threads removed (st\<lparr>openPREditors := prEditors\<rparr>)
      in if added \<noteq> [] then fold (open_editor_threads (reviewThreadsCache pr)) added st1 else st1)"

record review_thread_change_event =
  ev_added :: "review_thread list"
  ev_changed :: "review_thread list"
  ev_removed :: "review_thread list"

definition thread_has_id :: "node_state \<Rightarrow> string \<Rightarrow> nat \<Rightarrow> bool" where
  "thread_has_id st i h = (case threads st h of None \<Rightarrow> False | Some t \<Rightarrow> threadId t = i)"

text \<open>
  Lines 383-410. The thread that is created is the return value of a \<^verbatim>\<open>forEach\<close>
  callback: it is not put into the cache.
\<close>

definition added_thread ::
  "pull_request_model \<Rightarrow> externals \<Rightarrow> review_thread \<Rightarrow> node_state \<Rightarrow> node_state" where
  "added_thread pr ext thread st =
     (if \<not> isOutdated thread then
        (let file = relativeToRoot ext (rt_path thread)
         in case find (\<lambda>editor. case fromPRUri (document_uri editor) of
                                   None \<Rightarrow> False
                                 | Some query \<Rightarrow> q_fileName query = file)
                   (getPREditors pr (visibleTextEditors ext)) of
              None \<Rightarrow> st
            | Some matchingEditor \<Rightarrow>
                snd (createVSCodeCommentThreadForReviewThread (document_uri matchingEditor)
                       (rt_line thread - 1) thread st))
      else st)"

definition undefined_findIndex :: error where
  "undefined_findIndex = TypeError ''Cannot read properties of undefined (reading findIndex)''"

text \<open>
  Lines 412-420. \<^verbatim>\<open>commentThreadCache[thread.path]\<close> is undefined when the cache has
  no entry for the path, and reading \<^verbatim>\<open>findIndex\<close> of it throws.
\<close>

definition changed_thread :: "review_thread \<Rightarrow> node_state \<Rightarrow> error + node_state" where
  "changed_thread thread st =
     (case commentThreadCache st (rt_path thread) of
        None \<Rightarrow> Inl undefined_findIndex
      | Some hs \<Rightarrow>
          (let index = findIndex (thread_has_id st (rt_id thread)) hs
           in if index > - 1 then
                (case threads st (hs ! nat index) of
                   None \<Rightarrow> Inr st
                 | Some matchingThread \<Rightarrow>
                     Inr (st\<lparr>threads := (threads st)(hs ! nat index \<mapsto>
                            matchingThread
                              \<lparr>isResolved := rt_isResolved thread,
                               comments :=
                                 map (\<lambda>c. GHPRComment (new_GHPRComment c (thread_uri matchingThread)))
                                   (rt_comments thread)\<rparr>)\<rparr>))
              else Inr st))"

text \<open>A synchronous \<^verbatim>\<open>forEach\<close>: the first callback that throws ends the loop.\<close>

fun forEach_changed :: "review_thread list \<Rightarrow> node_state \<Rightarrow> unit completion \<times> node_state" where
  "forEach_changed [] st = (Returned (), st)"
| "forEach_changed (thread # rest) st =
     (case changed_thread thread st of
        Inl e \<Rightarrow> (Threw e, st)
      | Inr st1 \<Rightarrow> forEach_changed rest st1)"

text \<open>
  Lines 422-429. The callback is \<^verbatim>\<open>async\<close> and has no \<^verbatim>\<open>await\<close>: it runs to its end
  within the call, and what it throws rejects the promise it returns, which
  \<^verbatim>\<open>forEach\<close> drops.
\<close>

definition removed_thread :: "review_thread \<Rightarrow> node_state \<Rightarrow> node_state" where
  "removed_thread thread st =
     (case commentThreadCache st (rt_path thread) of
        None \<Rightarrow> emit (UnhandledRejection undefined_findIndex) st
      | Some hs \<Rightarrow>
          (let index = findIndex (thread_has_id st (rt_id thread)) hs
           in if index > - 1 then
                dispose (hs ! nat index)
                  (st\<lparr>commentThreadCache := (commentThreadCache st)(rt_path thread \<mapsto>
                         take (nat index) hs @ drop (Suc (nat index)) hs)\<rparr>)
              else st))"

definition onDidChangeReviewThreads ::
  "pull_request_model \<Rightarrow> externals \<Rightarrow> review_thread_change_event \<Rightarrow> node_state
     \<Rightarrow> unit completion \<times> node_state" where
  "onDidChangeReviewThreads pr ext e st =
     (case forEach_changed (ev_changed e) (fold (added_thread pr ext) (ev_added e) st) of
        (Threw err, st1) \<Rightarrow> (Threw err, st1)
      | (Returned u, st1) \<Rightarrow> (Returned (), fold removed_thread (ev_removed e) st1))"

text \<open>
  The threads the view host shows: the objects of the store that were not disposed.
\<close>

definition live_threads :: "node_state \<Rightarrow> nat list" where
  "live_threads st =
     filter (\<lambda>h. case threads st h of None \<Rightarrow> False | Some t \<Rightarrow> \<not> disposed t) [0..<next_thread st]"

definition live_threads_of :: "node_state \<Rightarrow> string \<Rightarrow> nat list" where
  "live_threads_of st i = filter (thread_has_id st i) (live_threads st)"

section \<open>Notions used in the properties\<close>



text \<open>
  The reaction list that the file change of a file holds for the comment with a given
  id, read back from the node's state.
\<close>

definition reactions_of_comment :: "node_state \<Rightarrow> string \<Rightarrow> int \<Rightarrow> reaction list option" where
  "reactions_of_comment st file cid =
     (case fileChanges st of
        None \<Rightarrow> None
      | Some fcs \<Rightarrow>
          (case find (\<lambda>change. node_fileName change = file) fcs of
             Some (InMemFileChangeNode fc) \<Rightarrow>
               (case find (\<lambda>c. ic_id c = cid) (fc_comments fc) of
                  None \<Rightarrow> None
                | Some c \<Rightarrow> ic_reactions c)
           | _ \<Rightarrow> None))"

text \<open>The review thread id of a thread object of the store, if the object exists.\<close>

definition thread_key :: "node_state \<Rightarrow> nat \<Rightarrow> string option" where
  "thread_key st h = map_option threadId (threads st h)"

text \<open>
  The list cached for a path holds at most one thread per review thread id. The cache
  is built with one thread per review thread of the path and side, so this holds of a
  cache that was built from review threads with different ids.
\<close>

definition cached_ids_distinct :: "node_state \<Rightarrow> string \<Rightarrow> bool" where
  "cached_ids_distinct st p =
     (case commentThreadCache st p of
        None \<Rightarrow> True
      | Some hs \<Rightarrow> distinct (map (thread_key st) hs))"

text \<open>
  A thread of an added-event for which line 384 or line 396 creates nothing: it is
  outdated, or no visible PR document has its path.
\<close>

definition no_open_view :: "pull_request_model \<Rightarrow> externals \<Rightarrow> review_thread \<Rightarrow> bool" where
  "no_open_view pr ext thread =
     (isOutdated thread
      \<or> find (\<lambda>editor. case fromPRUri (document_uri editor) of
                          None \<Rightarrow> False
                        | Some query \<Rightarrow> q_fileName query = relativeToRoot ext (rt_path thread))
           (getPREditors pr (visibleTextEditors ext)) = None)"

text \<open>
  The cache shows a changed review thread as the event gives it: the cached thread with
  its id, if there is one, has its resolution flag and its comments.
\<close>

definition reflects :: "node_state \<Rightarrow> review_thread \<Rightarrow> bool" where
  "reflects st t =
     (case commentThreadCache st (rt_path t) of
        None \<Rightarrow> True
      | Some hs \<Rightarrow>
          (case find (thread_has_id st (rt_id t)) hs of
             None \<Rightarrow> True
           | Some h \<Rightarrow>
               (case threads st h of
                  None \<Rightarrow> True
                | Some m \<Rightarrow>
                    isResolved m = rt_isResolved t
                    \<and> comments m = map (\<lambda>c. GHPRComment (new_GHPRComment c (thread_uri m)))
                                     (rt_comments t))))"

text \<open>The list cached for the path of a removed review thread holds no thread with its id.\<close>

definition cleared :: "node_state \<Rightarrow> review_thread \<Rightarrow> bool" where
  "cleared st r =
     (case commentThreadCache st (rt_path r) of
        None \<Rightarrow> True
      | Some hs \<Rightarrow> find (thread_has_id st (rt_id r)) hs = None)"

section \<open>Example inputs\<close>

text \<open>
  Concrete values on which the theorems below are instantiated: a pull request whose
  remote calls all reject, one whose remote calls all succeed, plain helpers, and small
  documents, files, comments and threads.
\<close>

definition failing_pr :: pull_request_model where
  "failing_pr =
     \<lparr>pr_number = 7, pr_isResolved = True, hasPendingReview = False, mergeBase = Some ''m0'',
      reviewThreadsCache = [],
      getReviewComments = Returned (Rejected (Error ''network'')),
      getFileChangesInfo = Returned (Rejected (Error ''network'')),
      getFile = (\<lambda>f c. Returned (Rejected (Error ''network''))),
      createCommentReply = (\<lambda>i n. Returned (Rejected (Error ''network''))),
      createReviewThread = (\<lambda>i f l. Returned (Rejected (Error ''network''))),
      editReviewComment = (\<lambda>c b. Returned (Rejected (Error ''network''))),
      deleteReviewComment = (\<lambda>c. Returned (Rejected (Error ''network''))),
      validateDraftMode = Returned (Rejected (Error ''network'')),
      submitReview = Returned (Rejected (Error ''network'')),
      pr_deleteReview = Returned (Rejected (Error ''network'')),
      addCommentReaction = (\<lambda>n r. Returned (Rejected (Error ''network''))),
      deleteCommentReaction = (\<lambda>n r. Returned (Rejected (Error ''network'')))\<rparr>"

definition thumbs_up :: reaction_group where
  "thumbs_up = \<lparr>rg_content = ''THUMBS_UP'', rg_viewerHasReacted = True, rg_totalCount = 1\<rparr>"

definition working_pr :: pull_request_model where
  "working_pr =
     \<lparr>pr_number = 7, pr_isResolved = True, hasPendingReview = False, mergeBase = Some ''m0'',
      reviewThreadsCache = [],
      getReviewComments = Returned (Resolved []),
      getFileChangesInfo = Returned (Resolved []),
      getFile = (\<lambda>f c. Returned (Resolved ''content'')),
      createCommentReply = (\<lambda>i n. Returned (Resolved ())),
      createReviewThread = (\<lambda>i f l. Returned (Resolved ())),
      editReviewComment = (\<lambda>c b. Returned (Resolved ())),
      deleteReviewComment = (\<lambda>c. Returned (Resolved ())),
      validateDraftMode = Returned (Resolved False),
      submitReview = Returned (Resolved ()),
      pr_deleteReview = Returned (Resolved ()),
      addCommentReaction = (\<lambda>n r. Returned (Resolved [thumbs_up])),
      deleteCommentReaction = (\<lambda>n r. Returned (Resolved []))\<rparr>"

definition plain_ext :: externals where
  "plain_ext =
     \<lparr>parseDiff = (\<lambda>d m. Returned (Resolved [])),
      getModifiedContentFromDiffHunk = (\<lambda>original p. Returned original),
      repository_show = (\<lambda>c p. Returned (Resolved [])),
      joinRootFsPath = (\<lambda>p. ''/repo/'' @ p),
      relativeToRoot = (\<lambda>p. p),
      currentUser = ''me'',
      parseGraphQLReaction =
        map (\<lambda>g. \<lparr>r_label = rg_content g, r_count = rg_totalCount g,
                   viewerHasReacted = rg_viewerHasReacted g\<rparr>),
      updateCommentReactions =
        (\<lambda>c rs. c\<lparr>gc_reactions :=
                    Some (map (\<lambda>r. \<lparr>cr_label = r_label r, cr_count = r_count r,
                                      authorHasReacted = viewerHasReacted r\<rparr>) rs)\<rparr>),
      visibleTextEditors = []\<rparr>"

definition pr_params :: "string \<Rightarrow> bool \<Rightarrow> pr_uri_params" where
  "pr_params f b =
     \<lparr>q_fileName = f, q_isBase = b, q_prNumber = 7, q_baseCommit = ''b0'', q_headCommit = ''h0''\<rparr>"

definition pr_uri :: "string \<Rightarrow> bool \<Rightarrow> uri" where
  "pr_uri f b = \<lparr>scheme = ''pr'', uri_path = ''/repo/'' @ f, uri_query = Some (pr_params f b)\<rparr>"

definition state_with :: "file_change_node list \<Rightarrow> node_state" where
  "state_with fcs =
     \<lparr>fileChanges = Some fcs, commentThreadCache = Map.empty, threads = Map.empty,
      next_thread = 0, openPREditors = [], idPool = 0, effects = []\<rparr>"

definition added_change :: "diff_line list \<Rightarrow> in_mem_file_change" where
  "added_change ls =
     \<lparr>status = ADD, fileName = ''a.ts'', previousFileName = None, blobUrl = ''blob'',
      isPartial = False, patch = [], diffHunks = [\<lparr>diffLines = ls\<rparr>], fc_comments = []\<rparr>"

definition two_added_lines :: "diff_line list" where
  "two_added_lines =
     [\<lparr>dl_type = Control, dl_text = ''@@ -0,0 +1,2 @@''\<rparr>,
      \<lparr>dl_type = Add, dl_text = ''one''\<rparr>,
      \<lparr>dl_type = Add, dl_text = ''two''\<rparr>]"

definition remote_file :: file_change_node where
  "remote_file =
     RemoteFileChangeNode
       \<lparr>status = MODIFY, fileName = ''big.bin'', previousFileName = None, blobUrl = ''blob''\<rparr>"

definition raw_comment :: "int \<Rightarrow> string \<Rightarrow> icomment" where
  "raw_comment i b =
     \<lparr>ic_id = i, graphNodeId = ''node'', ic_body = b, ic_path = Some ''a.ts'',
      ic_position = Some 1, ic_isDraft = False, ic_reactions = None\<rparr>"

definition empty_thread :: comment_thread where
  "empty_thread =
     \<lparr>threadId = [], thread_uri = pr_uri ''a.ts'' False, range_start_line = 4, comments = [],
      isResolved = False, disposed = False\<rparr>"

definition draft_comment :: "nat \<Rightarrow> string \<Rightarrow> temporary_comment" where
  "draft_comment i b =
     \<lparr>tc_id = i, tc_body = b, tc_mode = Preview, tc_isDraft = False, tc_author = ''me'',
      originalComment = None\<rparr>"

definition confirmed_comment :: "int \<Rightarrow> string \<Rightarrow> ghpr_comment" where
  "confirmed_comment i b = new_GHPRComment (raw_comment i b) (pr_uri ''a.ts'' False)"

definition thumbed_comment :: "bool \<Rightarrow> ghpr_comment" where
  "thumbed_comment mine =
     (confirmed_comment 11 ''first'')
       \<lparr>gc_reactions := Some [\<lparr>cr_label = ''THUMBS_UP'', cr_count = 1, authorHasReacted = mine\<rparr>]\<rparr>"

definition commented_change :: "icomment list \<Rightarrow> file_change_node" where
  "commented_change cs = InMemFileChangeNode ((added_change two_added_lines)\<lparr>fc_comments := cs\<rparr>)"

definition review_thread_T1 :: review_thread where
  "review_thread_T1 =
     \<lparr>rt_id = ''T1'', rt_path = ''a.ts'', rt_line = 5, diffSide = RIGHT, isOutdated = False,
      rt_isResolved = False, rt_comments = [raw_comment 11 ''first'']\<rparr>"

definition head_editor :: text_editor where
  "head_editor = \<lparr>editor_id = 1, document_uri = pr_uri ''a.ts'' False\<rparr>"

definition reviewed_pr :: pull_request_model where
  "reviewed_pr = working_pr\<lparr>reviewThreadsCache := [review_thread_T1]\<rparr>"

definition editor_ext :: externals where
  "editor_ext = plain_ext\<lparr>visibleTextEditors := [head_editor]\<rparr>"

definition removed_event :: "review_thread \<Rightarrow> review_thread_change_event" where
  "removed_event t = \<lparr>ev_added = [], ev_changed = [], ev_removed = [t]\<rparr>"

definition added_event :: "review_thread \<Rightarrow> review_thread_change_event" where
  "added_event t = \<lparr>ev_added = [t], ev_changed = [], ev_removed = []\<rparr>"

definition shown_thread :: comment_thread where
  "shown_thread =
     \<lparr>threadId = ''T1'', thread_uri = pr_uri ''a.ts'' False, range_start_line = 4,
      comments = [GHPRComment (confirmed_comment 11 ''first'')],
      isResolved = False, disposed = False\<rparr>"

definition shown_state :: node_state where
  "shown_state =
     (state_with [])
       \<lparr>commentThreadCache := [''a.ts'' \<mapsto> [0]], threads := [0 \<mapsto> shown_thread],
        next_thread := 1, openPREditors := [head_editor]\<rparr>"

definition resolved_then_removed :: review_thread_change_event where
  "resolved_then_removed =
     \<lparr>ev_added = [review_thread_T1\<lparr>isOutdated := True\<rparr>],
      ev_changed = [review_thread_T1\<lparr>rt_isResolved := True\<rparr>],
      ev_removed = [review_thread_T1]\<rparr>"

section \<open>Document content: verified properties\<close>









text \<open>
  C5, at the failing input. The head document of a remote-only file change is asked for
  and the fetch of the file rejects: the promise of provideDocumentContent rejects with
  the fetch error, and the only effect is the fetch; no warning is shown and the empty
  string is not returned.
\<close>

theorem provideDocumentContent_fetch_rejection_propagates:
  "provideDocumentContent failing_pr plain_ext (pr_uri ''big.bin'' False) (state_with [remote_file])
   = (Rejected (Error ''network''),
      (state_with [remote_file])\<lparr>effects := [Remote (GetFile ''big.bin'' ''h0'')]\<rparr>)"
  by (simp add: provideDocumentContent_def getFileChanges_def state_with_def remote_file_def
        pr_uri_def pr_params_def fromPRUri_def content_from_remote_def failing_pr_def emit_def)

text \<open>
  C10. provideDocumentContent is registered as content provider after the file changes
  were resolved (getChildren, lines 94-101), so the node holds its file change list when
  it is called. For a URI that does not parse as a PR document, and for one that names a
  file with no file change of that name in the list, the promise resolves to the empty
  string and the call adds no remote call to the effects.
\<close>

theorem provideDocumentContent_unknown_document:
  assumes "fromPRUri u = None
           \<or> (\<exists>params fcs. fromPRUri u = Some params \<and> fileChanges st = Some fcs
                 \<and> find (\<lambda>c. node_fileName c = q_fileName params) fcs = None)"
  shows "fst (provideDocumentContent pr ext u st) = Resolved []
         \<and> filter is_Remote (new_effects st (snd (provideDocumentContent pr ext u st))) = []"
  using assms
  by (auto simp: provideDocumentContent_def getFileChanges_def new_effects_def emit_def)

theorem provideDocumentContent_unknown_document_witness:
  "fst (provideDocumentContent failing_pr plain_ext (pr_uri ''other.ts'' False)
          (state_with [remote_file])) = Resolved []
   \<and> filter is_Remote
       (new_effects (state_with [remote_file])
          (snd (provideDocumentContent failing_pr plain_ext (pr_uri ''other.ts'' False)
                  (state_with [remote_file])))) = []"
  using provideDocumentContent_unknown_document
    [of "pr_uri ''other.ts'' False" "state_with [remote_file]" failing_pr plain_ext]
  by (simp add: state_with_def remote_file_def pr_uri_def pr_params_def fromPRUri_def)

section \<open>Comment operations: verified properties\<close>

text \<open>
  C1, at the failing input. A thread holds a confirmed comment and a temporary one, and
  deleteComment is called on the temporary one: the list that is left holds the
  temporary comment alone. The confirmed comment is gone and the comment to delete is
  kept; the only remote call is the validation of the draft mode.
\<close>

theorem deleteComment_temporary_keeps_only_it:
  "deleteComment working_pr
     (empty_thread\<lparr>comments := [GHPRComment (confirmed_comment 11 ''first''),
                                 TemporaryComment (draft_comment 0 ''typo'')]\<rparr>)
     (TemporaryComment (draft_comment 0 ''typo'')) (state_with [])
   = (Resolved (),
      empty_thread\<lparr>comments := [TemporaryComment (draft_comment 0 ''typo'')]\<rparr>,
      (state_with [])\<lparr>effects := [Remote ValidateDraftMode]\<rparr>)"
  by (simp add: deleteComment_def empty_thread_def confirmed_comment_def draft_comment_def
        state_with_def working_pr_def emit_def)

text \<open>
  C3. createOrReplyComment on any thread with any input, when what it sends fails (the
  new review thread for a thread without comments, the reply for a thread whose first
  comment is confirmed; a thread whose first comment is temporary cannot be replied to
  and fails without a call): the comment list afterwards is the list before, followed
  by the temporary comment that was added, in editing mode and with the input as its
  body. The promise of the operation resolves.
\<close>

theorem createOrReplyComment_failure_keeps_comment:
  assumes create: "comments thread = [] \<Longrightarrow>
      await (createReviewThread pr input (relativeToRoot ext (uri_path (thread_uri thread)))
               (range_start_line thread + 1)) = Inl e"
    and reply: "\<And>c cs. comments thread = GHPRComment c # cs \<Longrightarrow>
      await (createCommentReply pr input (graphNodeId (rawComment c))) = Inl e"
  shows "fst (createOrReplyComment pr ext thread input inDraft st) = Resolved ()
         \<and> fst (snd (createOrReplyComment pr ext thread input inDraft st)) =
             thread\<lparr>comments :=
               map (mark_editing (idPool st)) (comments thread) @
               [TemporaryComment
                  \<lparr>tc_id = idPool st, tc_body = input, tc_mode = Editing,
                   tc_isDraft = (case inDraft of Some b \<Rightarrow> b | None \<Rightarrow> hasPendingReview pr),
                   tc_author = currentUser ext, originalComment = None\<rparr>]\<rparr>"
proof (cases "comments thread")
  case Nil
  with create show ?thesis
    by (simp add: createOrReplyComment_def optimisticallyAddComment_def new_TemporaryComment_def
          updateCommentThreadComments_def)
next
  case (Cons c cs)
  show ?thesis
  proof (cases c)
    case (GHPRComment g)
    with Cons reply [of g cs] show ?thesis
      by (simp add: createOrReplyComment_def optimisticallyAddComment_def new_TemporaryComment_def
            updateCommentThreadComments_def reply_def)
  next
    case (TemporaryComment t)
    with Cons show ?thesis
      by (simp add: createOrReplyComment_def optimisticallyAddComment_def new_TemporaryComment_def
            updateCommentThreadComments_def reply_def)
  qed
qed

theorem createOrReplyComment_failure_keeps_comment_witness:
  "fst (createOrReplyComment failing_pr plain_ext
          (empty_thread\<lparr>comments := [GHPRComment (confirmed_comment 11 ''first'')]\<rparr>)
          ''a reply'' None (state_with [])) = Resolved ()
   \<and> comments (fst (snd (createOrReplyComment failing_pr plain_ext
          (empty_thread\<lparr>comments := [GHPRComment (confirmed_comment 11 ''first'')]\<rparr>)
          ''a reply'' None (state_with []))))
     = [GHPRComment (confirmed_comment 11 ''first''),
        TemporaryComment ((draft_comment 0 ''a reply'')\<lparr>tc_mode := Editing\<rparr>)]"
  using createOrReplyComment_failure_keeps_comment
    [of "empty_thread\<lparr>comments := [GHPRComment (confirmed_comment 11 ''first'')]\<rparr>"
        failing_pr "''a reply''" plain_ext "Error ''network''" None "state_with []"]
  by (simp add: empty_thread_def failing_pr_def plain_ext_def state_with_def draft_comment_def)

text \<open>
  C8, at the failing inputs. The remote call of deleteReview rejects: the promise of
  deleteReview rejects with that error and no message is shown. The same holds for
  deleteComment on a confirmed comment: the rejection of the remote delete leaves the
  entry point, and no message is shown.
\<close>

theorem deleteReview_rejection_escapes:
  "deleteReview failing_pr (state_with []) =
     (Rejected (Error ''network''), (state_with [])\<lparr>effects := [Remote DeleteReview]\<rparr>)
   \<and> deleteComment failing_pr
       (empty_thread\<lparr>comments := [GHPRComment (confirmed_comment 11 ''first'')]\<rparr>)
       (GHPRComment (confirmed_comment 11 ''first'')) (state_with [])
     = (Rejected (Error ''network''),
        empty_thread\<lparr>comments := [GHPRComment (confirmed_comment 11 ''first'')]\<rparr>,
        (state_with [])\<lparr>effects := [Remote (DeleteReviewComment 11)]\<rparr>)"
  by (simp add: deleteReview_def deleteComment_def empty_thread_def confirmed_comment_def
        new_GHPRComment_def raw_comment_def state_with_def failing_pr_def emit_def)

section \<open>Reactions: verified properties\<close>

lemma findIndex_lower: "- 1 \<le> findIndex P xs"
  by (induction xs) (auto simp: Let_def)

lemma findIndex_found:
  "0 \<le> findIndex P xs \<Longrightarrow> nat (findIndex P xs) < length xs \<and> P (xs ! nat (findIndex P xs))"
proof (induction xs)
  case Nil
  then show ?case by simp
next
  case (Cons x xs)
  show ?case
  proof (cases "P x")
    case True
    then show ?thesis by simp
  next
    case False
    with Cons.prems have nonneg: "0 \<le> findIndex P xs"
      by (simp add: Let_def split: if_splits)
    with False Cons.IH show ?thesis
      by (simp add: Let_def nat_add_distrib)
  qed
qed

lemma find_update_at_findIndex:
  "0 \<le> findIndex P xs \<Longrightarrow> P y \<Longrightarrow> find P (xs[nat (findIndex P xs) := y]) = Some y"
proof (induction xs)
  case Nil
  then show ?case by simp
next
  case (Cons x xs)
  show ?case
  proof (cases "P x")
    case True
    with Cons.prems show ?thesis by simp
  next
    case False
    with Cons.prems have nonneg: "0 \<le> findIndex P xs"
      by (simp add: Let_def split: if_splits)
    with False Cons.IH Cons.prems show ?thesis
      by (simp add: Let_def nat_add_distrib)
  qed
qed

lemma find_update_first:
  "find P xs = Some x \<Longrightarrow> P (f x) \<Longrightarrow> find P (update_first P f xs) = Some (f x)"
  by (induction xs) (auto split: if_splits)

lemma refresh_fold_fileChanges:
  "fileChanges
     (fold (\<lambda>h s. case threads s h of
                     None \<Rightarrow> s
                   | Some thread \<Rightarrow> if Q thread then emit (RefreshThread h) s else s) hs st)
   = fileChanges st"
  by (induction hs arbitrary: st) (auto simp: emit_def split: option.splits)

lemma refresh_fold_effects:
  "filter is_Remote
     (effects
        (fold (\<lambda>h s. case threads s h of
                        None \<Rightarrow> s
                      | Some thread \<Rightarrow> if Q thread then emit (RefreshThread h) s else s) hs st))
   = filter is_Remote (effects st)"
  by (induction hs arbitrary: st) (auto simp: emit_def split: option.splits)

lemma refresh_threads_fileChanges: "fileChanges (refresh_threads file cid st) = fileChanges st"
  by (simp add: refresh_threads_def refresh_fold_fileChanges split: option.splits)

lemma refresh_threads_remote:
  "filter is_Remote (effects (refresh_threads file cid st)) = filter is_Remote (effects st)"
  by (simp add: refresh_threads_def refresh_fold_effects split: option.splits)

text \<open>
  C6, as amended. toggleReaction on a comment of a PR document whose file has an
  in-memory file change that lists the comment, when the comment has a reaction list and
  the remote answers: the one remote call of the operation is an add-reaction request if
  the list holds no self-authored reaction with the label, and a remove-reaction request
  otherwise; afterwards the reaction list of the comment in the file change is the
  parsed reaction-group list of the response, whatever the list was before.
\<close>

theorem toggleReaction_request_and_result:
  assumes pr_doc: "scheme (gc_parent_uri comment) = ''pr''"
    and params: "fromPRUri (gc_parent_uri comment) = Some params"
    and resolved: "fileChanges st = Some fcs"
    and owner: "find (\<lambda>c. node_fileName c = q_fileName params) fcs = Some (InMemFileChangeNode fc)"
    and listed: "0 \<le> findIndex (\<lambda>c. ic_id c = commentId comment) (fc_comments fc)"
    and has_list: "gc_reactions comment = Some rs"
    and add_ok: "await (addCommentReaction pr (graphNodeId (rawComment comment)) l) = Inr added"
    and remove_ok: "await (deleteCommentReaction pr (graphNodeId (rawComment comment)) l) = Inr removed"
  shows "filter is_Remote (effects (snd (snd (toggleReaction pr ext comment l st))))
           = filter is_Remote (effects st) @
             [Remote (if find (\<lambda>ret. cr_label ret = l \<and> authorHasReacted ret) rs = None
                      then AddCommentReaction (graphNodeId (rawComment comment)) l
                      else DeleteCommentReaction (graphNodeId (rawComment comment)) l)]
         \<and> reactions_of_comment (snd (snd (toggleReaction pr ext comment l st)))
               (q_fileName params) (commentId comment)
           = Some (parseGraphQLReaction ext
                     (if find (\<lambda>ret. cr_label ret = l \<and> authorHasReacted ret) rs = None
                      then added else removed))"
proof -
  let ?P = "\<lambda>c. ic_id c = commentId comment"
  let ?N = "\<lambda>change. node_fileName change = q_fileName params"
  let ?i = "findIndex ?P (fc_comments fc)"
  from listed have at: "nat ?i < length (fc_comments fc)" "?P (fc_comments fc ! nat ?i)"
    using findIndex_found [of ?P "fc_comments fc"] by simp_all
  have found: "\<And>r. find ?P ((fc_comments fc)[nat ?i := (fc_comments fc ! nat ?i)\<lparr>ic_reactions := r\<rparr>])
                  = Some ((fc_comments fc ! nat ?i)\<lparr>ic_reactions := r\<rparr>)"
    using listed at by (intro find_update_at_findIndex) simp_all
  from owner have "node_fileName (InMemFileChangeNode fc) = q_fileName params"
    by (metis (mono_tags, lifting) find_Some_iff)
  then have name: "fileName fc = q_fileName params"
    by simp
  have node: "\<And>c. find ?N (update_first ?N (\<lambda>n. InMemFileChangeNode (fc\<lparr>fc_comments := c\<rparr>)) fcs)
                = Some (InMemFileChangeNode (fc\<lparr>fc_comments := c\<rparr>))"
    using owner name by (intro find_update_first) simp_all
  show ?thesis
    using assms found node
    by (simp add: toggleReaction_def findMatchingFileNode_def getFileChanges_def adds_reaction_def
          Let_def emit_def reactions_of_comment_def refresh_threads_fileChanges
          refresh_threads_remote not_le [symmetric])
qed

theorem toggleReaction_request_and_result_witness:
  "filter is_Remote
     (effects (snd (snd (toggleReaction working_pr plain_ext (thumbed_comment True) ''THUMBS_UP''
                           (state_with [commented_change [raw_comment 11 ''first'']])))))
   = [Remote (DeleteCommentReaction ''node'' ''THUMBS_UP'')]
   \<and> reactions_of_comment
       (snd (snd (toggleReaction working_pr plain_ext (thumbed_comment True) ''THUMBS_UP''
                    (state_with [commented_change [raw_comment 11 ''first'']]))))
       ''a.ts'' 11
     = Some []"
  using toggleReaction_request_and_result
    [where comment = "thumbed_comment True" and params = "pr_params ''a.ts'' False"
       and st = "state_with [commented_change [raw_comment 11 ''first'']]"
       and fcs = "[commented_change [raw_comment 11 ''first'']]"
       and fc = "(added_change two_added_lines)\<lparr>fc_comments := [raw_comment 11 ''first'']\<rparr>"
       and rs = "[\<lparr>cr_label = ''THUMBS_UP'', cr_count = 1, authorHasReacted = True\<rparr>]"
       and pr = working_pr and l = "''THUMBS_UP''" and added = "[thumbs_up]" and removed = "[]"
       and ext = plain_ext]
  by (simp add: thumbed_comment_def confirmed_comment_def new_GHPRComment_def raw_comment_def
        pr_uri_def pr_params_def fromPRUri_def state_with_def commented_change_def
        added_change_def working_pr_def plain_ext_def)

text \<open>
  C6 as stated fails: a comment that the file change does not list (one created after
  the file changes were resolved) has an empty reaction list, and toggleReaction issues
  neither an add-reaction nor a remove-reaction request for it.
\<close>

theorem toggleReaction_unlisted_comment_counterexample:
  "filter is_Remote
     (effects (snd (snd (toggleReaction working_pr plain_ext
                           ((confirmed_comment 12 ''second'')\<lparr>gc_reactions := Some []\<rparr>) ''THUMBS_UP''
                           (state_with [commented_change [raw_comment 11 ''first'']])))))
   = []
   \<and> gc_reactions ((confirmed_comment 12 ''second'')\<lparr>gc_reactions := Some []\<rparr>) = Some []"
  by (simp add: toggleReaction_def findMatchingFileNode_def getFileChanges_def
        confirmed_comment_def new_GHPRComment_def raw_comment_def pr_uri_def pr_params_def
        fromPRUri_def state_with_def commented_change_def added_change_def Let_def)

section \<open>The comment thread cache: verified properties\<close>

text \<open>
  C2, at the failing input. A thread-removed event arrives for a thread of a path that
  has no entry in the cache: the callback throws a TypeError when it reads
  \<^verbatim>\<open>findIndex\<close> of the missing entry, and the rejected promise of the callback is left
  unhandled. Nothing is disposed and the cache is unchanged.
\<close>

theorem removed_thread_without_cache_entry_rejects:
  "onDidChangeReviewThreads reviewed_pr plain_ext (removed_event review_thread_T1) (state_with [])
   = (Returned (),
      (state_with [])\<lparr>effects := [UnhandledRejection undefined_findIndex]\<rparr>)"
  by (simp add: onDidChangeReviewThreads_def removed_event_def removed_thread_def state_with_def
        review_thread_T1_def emit_def)

text \<open>
  C7, at the failing input. One review thread T1 on the head side of a file, whose head
  document is visible: after initializeThreadsInOpenEditors has run twice for the same
  visible editors, the view host shows two threads for T1 (references 0 and 1), and the
  cache holds the second only, so that the first can no longer be reached or disposed.
\<close>

theorem initializeThreadsInOpenEditors_twice_duplicates:
  "live_threads_of
     (initializeThreadsInOpenEditors reviewed_pr [head_editor]
        (initializeThreadsInOpenEditors reviewed_pr [head_editor] (state_with [])))
     ''T1'' = [0, 1]
   \<and> commentThreadCache
       (initializeThreadsInOpenEditors reviewed_pr [head_editor]
          (initializeThreadsInOpenEditors reviewed_pr [head_editor] (state_with [])))
       ''a.ts'' = Some [1]"
  by (simp add: initializeThreadsInOpenEditors_def getPREditors_def head_editor_def pr_uri_def
        pr_params_def fromPRUri_def reviewed_pr_def working_pr_def review_thread_T1_def
        open_editor_threads_def threadsByPath_def createVSCodeCommentThreadForReviewThread_def
        state_with_def live_threads_of_def live_threads_def thread_has_id_def)

subsection \<open>Replaying a review-thread event\<close>

lemma find_findIndex:
  "find P xs = (if 0 \<le> findIndex P xs then Some (xs ! nat (findIndex P xs)) else None)"
proof (induction xs)
  case Nil
  show ?case by simp
next
  case (Cons x xs)
  show ?case
  proof (cases "P x")
    case True
    then show ?thesis by simp
  next
    case False
    then show ?thesis
      using Cons.IH findIndex_lower [of P xs] by (simp add: Let_def nat_add_distrib)
  qed
qed

lemma splice_findIndex:
  "0 \<le> findIndex P xs \<Longrightarrow>
   take (nat (findIndex P xs)) xs @ drop (Suc (nat (findIndex P xs))) xs
     = remove1 (xs ! nat (findIndex P xs)) xs"
proof (induction xs)
  case Nil
  then show ?case by simp
next
  case (Cons x xs)
  show ?case
  proof (cases "P x")
    case True
    then show ?thesis by simp
  next
    case False
    with Cons.prems have nonneg: "0 \<le> findIndex P xs"
      by (simp add: Let_def split: if_splits)
    from findIndex_found [OF nonneg] False have "x \<noteq> xs ! nat (findIndex P xs)"
      by auto
    with False nonneg Cons.IH show ?thesis
      by (simp add: Let_def nat_add_distrib)
  qed
qed

lemma thread_has_id_key: "thread_has_id st i h \<longleftrightarrow> thread_key st h = Some i"
  by (auto simp: thread_has_id_def thread_key_def split: option.splits)

lemma changed_thread_unfold:
  "changed_thread t st =
     (case commentThreadCache st (rt_path t) of
        None \<Rightarrow> Inl undefined_findIndex
      | Some hs \<Rightarrow>
          (case find (thread_has_id st (rt_id t)) hs of
             None \<Rightarrow> Inr st
           | Some h \<Rightarrow>
               (case threads st h of
                  None \<Rightarrow> Inr st
                | Some m \<Rightarrow>
                    Inr (st\<lparr>threads := (threads st)(h \<mapsto>
                           m\<lparr>isResolved := rt_isResolved t,
                             comments := map (\<lambda>c. GHPRComment (new_GHPRComment c (thread_uri m)))
                                           (rt_comments t)\<rparr>)\<rparr>))))"
  by (auto simp: changed_thread_def find_findIndex Let_def split: option.splits)

lemma removed_thread_unfold:
  "removed_thread r st =
     (case commentThreadCache st (rt_path r) of
        None \<Rightarrow> emit (UnhandledRejection undefined_findIndex) st
      | Some hs \<Rightarrow>
          (case find (thread_has_id st (rt_id r)) hs of
             None \<Rightarrow> st
           | Some h \<Rightarrow>
               dispose h (st\<lparr>commentThreadCache :=
                             (commentThreadCache st)(rt_path r \<mapsto> remove1 h hs)\<rparr>)))"
  by (auto simp: removed_thread_def find_findIndex splice_findIndex Let_def split: option.splits)

lemma find_has_id:
  "find (thread_has_id st i) hs = Some h \<Longrightarrow> \<exists>m. threads st h = Some m \<and> threadId m = i"
  by (auto simp: find_Some_iff thread_has_id_def split: option.splits)

lemma thread_has_id_write:
  "threads st h = Some m \<Longrightarrow>
   thread_has_id (st\<lparr>threads := (threads st)(h \<mapsto> m\<lparr>isResolved := a, comments := c\<rparr>)\<rparr>) i
     = thread_has_id st i"
  by (rule ext) (simp add: thread_has_id_def)

lemma changed_thread_frame:
  assumes "changed_thread t st = Inr st1"
  shows "commentThreadCache st1 = commentThreadCache st"
    and "thread_has_id st1 = thread_has_id st"
    and "next_thread st1 = next_thread st"
    and "commentThreadCache st (rt_path t) \<noteq> None"
  using assms
  by (auto simp: changed_thread_unfold thread_has_id_write split: option.splits)

lemma reflects_fixed:
  "reflects st t \<Longrightarrow> commentThreadCache st (rt_path t) \<noteq> None \<Longrightarrow> changed_thread t st = Inr st"
  by (auto simp: reflects_def changed_thread_unfold map_upd_triv split: option.splits)

lemma changed_thread_reflects:
  assumes "changed_thread t st = Inr st1"
  shows "reflects st1 t"
  using assms
  by (auto simp: changed_thread_unfold reflects_def thread_has_id_write split: option.splits)

lemma changed_thread_keeps_reflects:
  assumes other: "reflects st t" and step: "changed_thread t' st = Inr st1"
    and ids: "rt_id t \<noteq> rt_id t'"
  shows "reflects st1 t"
proof (cases "commentThreadCache st (rt_path t')")
  case None
  with step show ?thesis by (simp add: changed_thread_unfold)
next
  case (Some hs')
  show ?thesis
  proof (cases "find (thread_has_id st (rt_id t')) hs'")
    case None
    with Some step other show ?thesis by (simp add: changed_thread_unfold)
  next
    case found: (Some h')
    from find_has_id [OF found] obtain m' where m': "threads st h' = Some m'" "threadId m' = rt_id t'"
      by blast
    let ?w = "m'\<lparr>isResolved := rt_isResolved t',
                  comments := map (\<lambda>c. GHPRComment (new_GHPRComment c (thread_uri m'))) (rt_comments t')\<rparr>"
    from Some found m' step have st1: "st1 = st\<lparr>threads := (threads st)(h' \<mapsto> ?w)\<rparr>"
      by (simp add: changed_thread_unfold)
    have ids1: "thread_has_id st1 = thread_has_id st"
      and cache1: "commentThreadCache st1 = commentThreadCache st"
      using changed_thread_frame [OF step] by simp_all
    show ?thesis
    proof (cases "commentThreadCache st (rt_path t)")
      case None
      with cache1 show ?thesis by (simp add: reflects_def)
    next
      case hs: (Some hs)
      show ?thesis
      proof (cases "find (thread_has_id st (rt_id t)) hs")
        case None
        with hs cache1 ids1 show ?thesis by (simp add: reflects_def)
      next
        case h: (Some h)
        from find_has_id [OF h] obtain m where m: "threads st h = Some m" "threadId m = rt_id t"
          by blast
        with m' ids have "h \<noteq> h'" by auto
        with st1 have "threads st1 h = threads st h" by simp
        with other hs h m cache1 ids1 show ?thesis by (simp add: reflects_def)
      qed
    qed
  qed
qed

lemma forEach_changed_frame:
  "forEach_changed cs st = (c, st1) \<Longrightarrow>
   commentThreadCache st1 = commentThreadCache st \<and> thread_has_id st1 = thread_has_id st
   \<and> next_thread st1 = next_thread st"
proof (induction cs arbitrary: st)
  case Nil
  then show ?case by simp
next
  case (Cons t cs)
  show ?case
  proof (cases "changed_thread t st")
    case (Inl e)
    with Cons.prems show ?thesis by simp
  next
    case (Inr sta)
    with Cons.prems have "forEach_changed cs sta = (c, st1)" by simp
    from Cons.IH [OF this] changed_thread_frame [OF Inr] show ?thesis by simp
  qed
qed

lemma forEach_changed_keeps_reflects:
  "forEach_changed cs st = (c, st1) \<Longrightarrow> reflects st t \<Longrightarrow> rt_id t \<notin> rt_id ` set cs \<Longrightarrow>
   reflects st1 t"
proof (induction cs arbitrary: st)
  case Nil
  then show ?case by simp
next
  case (Cons t' cs)
  show ?case
  proof (cases "changed_thread t' st")
    case (Inl e)
    with Cons.prems show ?thesis by simp
  next
    case (Inr sta)
    with Cons.prems have rest: "forEach_changed cs sta = (c, st1)" by simp
    from Cons.prems have "rt_id t \<noteq> rt_id t'" "rt_id t \<notin> rt_id ` set cs" by auto
    with changed_thread_keeps_reflects [OF Cons.prems(2) Inr] Cons.IH [OF rest] show ?thesis
      by blast
  qed
qed

lemma forEach_changed_returned:
  "forEach_changed cs st = (Returned (), st1) \<Longrightarrow>
   \<forall>t \<in> set cs. commentThreadCache st (rt_path t) \<noteq> None"
proof (induction cs arbitrary: st)
  case Nil
  then show ?case by simp
next
  case (Cons t cs)
  show ?case
  proof (cases "changed_thread t st")
    case (Inl e)
    with Cons.prems show ?thesis by simp
  next
    case (Inr sta)
    with Cons.prems have rest: "forEach_changed cs sta = (Returned (), st1)" by simp
    from Cons.IH [OF rest] changed_thread_frame [OF Inr] show ?thesis by simp
  qed
qed

lemma forEach_changed_all_reflected:
  "distinct (map rt_id cs) \<Longrightarrow> forEach_changed cs st = (Returned (), st1) \<Longrightarrow>
   \<forall>t \<in> set cs. reflects st1 t"
proof (induction cs arbitrary: st)
  case Nil
  then show ?case by simp
next
  case (Cons t cs)
  show ?case
  proof (cases "changed_thread t st")
    case (Inl e)
    with Cons.prems show ?thesis by simp
  next
    case (Inr sta)
    with Cons.prems have rest: "forEach_changed cs sta = (Returned (), st1)" by simp
    from Cons.prems have "rt_id t \<notin> rt_id ` set cs" "distinct (map rt_id cs)" by auto
    with forEach_changed_keeps_reflects [OF rest changed_thread_reflects [OF Inr]]
      Cons.IH [OF _ rest]
    show ?thesis by simp
  qed
qed

lemma forEach_changed_again:
  "distinct (map rt_id cs) \<Longrightarrow> forEach_changed cs st = (c, st1) \<Longrightarrow>
   forEach_changed cs st1 = (c, st1)"
proof (induction cs arbitrary: st)
  case Nil
  then show ?case by simp
next
  case (Cons t cs)
  show ?case
  proof (cases "changed_thread t st")
    case (Inl e)
    with Cons.prems show ?thesis by simp
  next
    case (Inr sta)
    with Cons.prems have rest: "forEach_changed cs sta = (c, st1)" by simp
    from Cons.prems have fresh: "rt_id t \<notin> rt_id ` set cs" and dist: "distinct (map rt_id cs)"
      by auto
    have "reflects st1 t"
      using forEach_changed_keeps_reflects [OF rest changed_thread_reflects [OF Inr] fresh] .
    moreover have "commentThreadCache st1 (rt_path t) \<noteq> None"
      using forEach_changed_frame [OF rest] changed_thread_frame [OF Inr] by simp
    ultimately have "changed_thread t st1 = Inr st1"
      by (rule reflects_fixed)
    with Cons.IH [OF dist rest] show ?thesis by simp
  qed
qed

lemma forEach_changed_reflected:
  "\<forall>t \<in> set cs. reflects s t \<and> commentThreadCache s (rt_path t) \<noteq> None \<Longrightarrow>
   forEach_changed cs s = (Returned (), s)"
  by (induction cs) (simp_all add: reflects_fixed)

lemma dispose_frame:
  "commentThreadCache (dispose h st) = commentThreadCache st"
  "thread_has_id (dispose h st) = thread_has_id st"
  "thread_key (dispose h st) = thread_key st"
  "next_thread (dispose h st) = next_thread st"
  by (auto simp: dispose_def thread_has_id_def thread_key_def fun_eq_iff split: option.splits)

lemma emit_frame:
  "commentThreadCache (emit e st) = commentThreadCache st"
  "threads (emit e st) = threads st"
  "thread_has_id (emit e st) = thread_has_id st"
  "thread_key (emit e st) = thread_key st"
  "next_thread (emit e st) = next_thread st"
  by (auto simp: emit_def thread_has_id_def thread_key_def fun_eq_iff)

lemma cache_update_frame:
  "thread_has_id (st\<lparr>commentThreadCache := c\<rparr>) = thread_has_id st"
  "thread_key (st\<lparr>commentThreadCache := c\<rparr>) = thread_key st"
  by (auto simp: thread_has_id_def thread_key_def fun_eq_iff)

lemma distinct_map_remove1: "distinct (map f xs) \<Longrightarrow> distinct (map f (remove1 x xs))"
proof (induction xs)
  case Nil
  then show ?case by simp
next
  case (Cons y ys)
  have "f ` set (remove1 x ys) \<subseteq> f ` set ys"
    using set_remove1_subset [of x ys] by blast
  with Cons show ?case by auto
qed

lemma find_remove1_other: "\<not> P x \<Longrightarrow> find P (remove1 x xs) = find P xs"
  by (induction xs) auto

lemma find_remove1_None: "find P xs = None \<Longrightarrow> find P (remove1 x xs) = None"
  using set_remove1_subset [of x xs] by (auto simp: find_None_iff)

lemma find_remove1_only:
  assumes dist: "distinct (map k xs)" and "x \<in> set xs" and same: "\<And>y. P y \<Longrightarrow> k y = k x"
  shows "find P (remove1 x xs) = None"
proof -
  from dist have inj: "inj_on k (set xs)" and dxs: "distinct xs"
    by (simp_all add: distinct_map)
  have "\<not> P y" if "y \<in> set (remove1 x xs)" for y
  proof
    assume "P y"
    then have "k y = k x" by (rule same)
    moreover from that have "y \<in> set xs" using set_remove1_subset [of x xs] by blast
    ultimately have "y = x" using inj assms(2) by (auto dest: inj_onD)
    with that dxs show False by simp
  qed
  then show ?thesis by (auto simp: find_None_iff)
qed

lemma removed_thread_frame:
  "thread_has_id (removed_thread r st) = thread_has_id st"
  "thread_key (removed_thread r st) = thread_key st"
  "next_thread (removed_thread r st) = next_thread st"
  "commentThreadCache (removed_thread r st) p = None \<longleftrightarrow> commentThreadCache st p = None"
  by (auto simp: removed_thread_unfold dispose_frame emit_frame cache_update_frame
        split: option.splits)

lemma removed_thread_keeps_distinct:
  "cached_ids_distinct st p \<Longrightarrow> cached_ids_distinct (removed_thread r st) p"
  by (auto simp: cached_ids_distinct_def removed_thread_unfold dispose_frame emit_frame
        cache_update_frame distinct_map_remove1 split: option.splits)

lemma removed_thread_clears:
  assumes "cached_ids_distinct st (rt_path r)"
  shows "cleared (removed_thread r st) r"
proof (cases "commentThreadCache st (rt_path r)")
  case None
  then show ?thesis by (simp add: cleared_def removed_thread_unfold emit_frame)
next
  case (Some hs)
  show ?thesis
  proof (cases "find (thread_has_id st (rt_id r)) hs")
    case None
    with Some show ?thesis by (simp add: cleared_def removed_thread_unfold)
  next
    case found: (Some h)
    then have h: "h \<in> set hs" "thread_key st h = Some (rt_id r)"
      by (auto simp: find_Some_iff thread_has_id_key)
    from assms Some have "distinct (map (thread_key st) hs)"
      by (simp add: cached_ids_distinct_def)
    then have "find (thread_has_id st (rt_id r)) (remove1 h hs) = None"
      using h by (intro find_remove1_only [where k = "thread_key st"]) (simp_all add: thread_has_id_key)
    with Some found show ?thesis
      by (simp add: cleared_def removed_thread_unfold dispose_frame cache_update_frame)
  qed
qed

lemma removed_thread_keeps_cleared:
  "cleared st r \<Longrightarrow> cleared (removed_thread r' st) r"
  by (auto simp: cleared_def removed_thread_unfold dispose_frame emit_frame cache_update_frame
        find_remove1_None split: option.splits)

lemma removed_thread_cleared:
  "cleared st r \<Longrightarrow>
   removed_thread r st = st \<or> removed_thread r st = emit (UnhandledRejection undefined_findIndex) st"
  by (auto simp: cleared_def removed_thread_unfold split: option.splits)

lemma dispose_threads:
  "threads (dispose h0 st) h =
     (if h = h0 then map_option (\<lambda>m. m\<lparr>disposed := True\<rparr>) (threads st h) else threads st h)"
  by (auto simp: dispose_def split: option.splits)

lemma removed_thread_keeps_reflects:
  assumes refl: "reflects st t" and dist: "cached_ids_distinct st (rt_path r)"
  shows "reflects (removed_thread r st) t"
proof (cases "commentThreadCache st (rt_path r)")
  case None
  with refl show ?thesis
    by (simp add: reflects_def removed_thread_unfold emit_frame cong: option.case_cong)
next
  case (Some hs)
  show ?thesis
  proof (cases "find (thread_has_id st (rt_id r)) hs")
    case None
    with Some refl show ?thesis by (simp add: removed_thread_unfold)
  next
    case found: (Some h0)
    then have h0: "h0 \<in> set hs" "thread_key st h0 = Some (rt_id r)"
      by (auto simp: find_Some_iff thread_has_id_key)
    from dist Some have keys: "distinct (map (thread_key st) hs)"
      by (simp add: cached_ids_distinct_def)
    let ?after = "dispose h0 (st\<lparr>commentThreadCache := (commentThreadCache st)(rt_path r \<mapsto> remove1 h0 hs)\<rparr>)"
    from Some found have st2: "removed_thread r st = ?after"
      by (simp add: removed_thread_unfold)
    have ids2: "thread_has_id ?after = thread_has_id st"
      by (simp add: dispose_frame cache_update_frame)
    have kept: "\<And>h m. threads st h = Some m \<Longrightarrow>
        \<exists>n. threads ?after h = Some n \<and> isResolved n = isResolved m \<and> comments n = comments m
              \<and> thread_uri n = thread_uri m"
      by (auto simp: dispose_threads)
    have target: "\<And>hs2 h. commentThreadCache ?after (rt_path t) = Some hs2 \<Longrightarrow>
        find (thread_has_id st (rt_id t)) hs2 = Some h \<Longrightarrow>
        \<exists>hs1. commentThreadCache st (rt_path t) = Some hs1
               \<and> find (thread_has_id st (rt_id t)) hs1 = Some h"
    proof -
      fix hs2 h
      assume c2: "commentThreadCache ?after (rt_path t) = Some hs2"
        and f2: "find (thread_has_id st (rt_id t)) hs2 = Some h"
      show "\<exists>hs1. commentThreadCache st (rt_path t) = Some hs1
               \<and> find (thread_has_id st (rt_id t)) hs1 = Some h"
      proof (cases "rt_path t = rt_path r")
        case False
        with c2 f2 show ?thesis by (simp add: dispose_frame)
      next
        case True
        with c2 have hs2: "hs2 = remove1 h0 hs" by (simp add: dispose_frame)
        have "\<not> thread_has_id st (rt_id t) h0"
        proof
          assume "thread_has_id st (rt_id t) h0"
          with h0 have "rt_id t = rt_id r" by (simp add: thread_has_id_key)
          then have "find (thread_has_id st (rt_id t)) (remove1 h0 hs) = None"
            using keys h0
            by (intro find_remove1_only [where k = "thread_key st"]) (simp_all add: thread_has_id_key)
          with f2 hs2 show False by simp
        qed
        with f2 hs2 have "find (thread_has_id st (rt_id t)) hs = Some h"
          by (simp add: find_remove1_other)
        with True Some show ?thesis by simp
      qed
    qed
    show ?thesis
      unfolding st2 reflects_def ids2
    proof (clarsimp split: option.splits)
      fix hs2 h n
      assume c2: "commentThreadCache ?after (rt_path t) = Some hs2"
        and f2: "find (thread_has_id st (rt_id t)) hs2 = Some h"
        and n: "threads ?after h = Some n"
      from target [OF c2 f2] obtain hs1 where hs1: "commentThreadCache st (rt_path t) = Some hs1"
        "find (thread_has_id st (rt_id t)) hs1 = Some h" by blast
      from find_has_id [OF hs1(2)] obtain m where m: "threads st h = Some m" by blast
      from kept [OF m] n have same: "isResolved n = isResolved m" "comments n = comments m"
        "thread_uri n = thread_uri m" by auto
      from refl hs1 m have "isResolved m = rt_isResolved t"
        "comments m = map (\<lambda>c. GHPRComment (new_GHPRComment c (thread_uri m))) (rt_comments t)"
        by (simp_all add: reflects_def)
      with same show "isResolved n = rt_isResolved t \<and>
        comments n = map (\<lambda>c. GHPRComment (new_GHPRComment c (thread_uri n))) (rt_comments t)"
        by simp
    qed
  qed
qed

lemma thread_key_write:
  "threads st h = Some m \<Longrightarrow>
   thread_key (st\<lparr>threads := (threads st)(h \<mapsto> m\<lparr>isResolved := a, comments := c\<rparr>)\<rparr>)
     = thread_key st"
  by (rule ext) (simp add: thread_key_def)

lemma changed_thread_key: "changed_thread t st = Inr st1 \<Longrightarrow> thread_key st1 = thread_key st"
  by (auto simp: changed_thread_unfold thread_key_write split: option.splits)

lemma forEach_changed_key: "forEach_changed cs st = (c, st1) \<Longrightarrow> thread_key st1 = thread_key st"
proof (induction cs arbitrary: st)
  case Nil
  then show ?case by simp
next
  case (Cons t cs)
  show ?case
  proof (cases "changed_thread t st")
    case (Inl e)
    with Cons.prems show ?thesis by simp
  next
    case (Inr sta)
    with Cons.prems have "forEach_changed cs sta = (c, st1)" by simp
    from Cons.IH [OF this] changed_thread_key [OF Inr] show ?thesis by simp
  qed
qed

lemma fold_removed_frame:
  "thread_has_id (fold removed_thread rs st) = thread_has_id st"
  "next_thread (fold removed_thread rs st) = next_thread st"
  "commentThreadCache (fold removed_thread rs st) p = None \<longleftrightarrow> commentThreadCache st p = None"
  by (induction rs arbitrary: st) (simp_all add: removed_thread_frame)

lemma fold_removed_keeps_cleared:
  "cleared st r \<Longrightarrow> cleared (fold removed_thread rs st) r"
  by (induction rs arbitrary: st) (simp_all add: removed_thread_keeps_cleared)

lemma fold_removed_clears:
  "\<forall>r \<in> set rs. cached_ids_distinct st (rt_path r) \<Longrightarrow>
   \<forall>r \<in> set rs. cleared (fold removed_thread rs st) r"
proof (induction rs arbitrary: st)
  case Nil
  show ?case by simp
next
  case (Cons r rs)
  have "cleared (fold removed_thread rs (removed_thread r st)) r"
    using Cons.prems by (intro fold_removed_keeps_cleared removed_thread_clears) simp
  moreover have "\<forall>x \<in> set rs. cleared (fold removed_thread rs (removed_thread r st)) x"
    using Cons.prems by (intro Cons.IH) (simp add: removed_thread_keeps_distinct)
  ultimately show ?case by simp
qed

lemma fold_removed_keeps_reflects:
  "reflects st t \<Longrightarrow> \<forall>r \<in> set rs. cached_ids_distinct st (rt_path r) \<Longrightarrow>
   reflects (fold removed_thread rs st) t"
proof (induction rs arbitrary: st)
  case Nil
  then show ?case by simp
next
  case (Cons r rs)
  have "reflects (removed_thread r st) t"
    using Cons.prems by (intro removed_thread_keeps_reflects) simp_all
  moreover have "\<forall>x \<in> set rs. cached_ids_distinct (removed_thread r st) (rt_path x)"
    using Cons.prems by (simp add: removed_thread_keeps_distinct)
  ultimately show ?case
    using Cons.IH by simp
qed

lemma fold_removed_cleared:
  "\<forall>r \<in> set rs. cleared st r \<Longrightarrow>
   commentThreadCache (fold removed_thread rs st) = commentThreadCache st
   \<and> threads (fold removed_thread rs st) = threads st"
proof (induction rs arbitrary: st)
  case Nil
  show ?case by simp
next
  case (Cons r rs)
  from Cons.prems have "cleared st r" by simp
  from removed_thread_cleared [OF this]
  have step: "commentThreadCache (removed_thread r st) = commentThreadCache st
              \<and> threads (removed_thread r st) = threads st"
    by (auto simp: emit_frame)
  have "\<forall>x \<in> set rs. cleared (removed_thread r st) x"
    using Cons.prems by (simp add: removed_thread_keeps_cleared)
  from Cons.IH [OF this] step show ?case by simp
qed

lemma added_thread_no_open_view: "no_open_view pr ext t \<Longrightarrow> added_thread pr ext t st = st"
  by (auto simp: no_open_view_def added_thread_def Let_def)

lemma fold_added_no_open_view:
  "list_all (no_open_view pr ext) ts \<Longrightarrow> fold (added_thread pr ext) ts st = st"
  by (induction ts) (simp_all add: added_thread_no_open_view)

lemma cached_ids_distinct_cong:
  "commentThreadCache st1 = commentThreadCache st \<Longrightarrow> thread_key st1 = thread_key st \<Longrightarrow>
   cached_ids_distinct st1 p = cached_ids_distinct st p"
  by (simp add: cached_ids_distinct_def cong: option.case_cong)

lemma live_threads_cong:
  "threads st1 = threads st \<Longrightarrow> next_thread st1 = next_thread st \<Longrightarrow>
   live_threads st1 = live_threads st"
  by (simp add: live_threads_def)

text \<open>
  C9, as amended. Take a cache in which the lists of the paths of the removed threads
  hold at most one thread per review thread id, and an event that lists each changed
  thread once and whose added threads are outdated or have no visible document.
  Processing the event a second time, on the state the first processing left, ends as
  the first did (it returns, or throws the same error) and leaves the cache, the thread
  objects and the threads shown by the view host as the first processing left them.
\<close>

theorem replayed_event_changes_nothing:
  assumes added: "list_all (no_open_view pr ext) (ev_added e)"
    and changed: "distinct (map rt_id (ev_changed e))"
    and removed: "list_all (\<lambda>r. cached_ids_distinct st (rt_path r)) (ev_removed e)"
  shows "fst (onDidChangeReviewThreads pr ext e (snd (onDidChangeReviewThreads pr ext e st)))
           = fst (onDidChangeReviewThreads pr ext e st)
         \<and> commentThreadCache (snd (onDidChangeReviewThreads pr ext e (snd (onDidChangeReviewThreads pr ext e st))))
           = commentThreadCache (snd (onDidChangeReviewThreads pr ext e st))
         \<and> threads (snd (onDidChangeReviewThreads pr ext e (snd (onDidChangeReviewThreads pr ext e st))))
           = threads (snd (onDidChangeReviewThreads pr ext e st))
         \<and> live_threads (snd (onDidChangeReviewThreads pr ext e (snd (onDidChangeReviewThreads pr ext e st))))
           = live_threads (snd (onDidChangeReviewThreads pr ext e st))"
proof -
  let ?cs = "ev_changed e" and ?rs = "ev_removed e"
  have add: "\<And>s. fold (added_thread pr ext) (ev_added e) s = s"
    using added by (rule fold_added_no_open_view)
  obtain c st1 where first: "forEach_changed ?cs st = (c, st1)"
    by (cases "forEach_changed ?cs st")
  show ?thesis
  proof (cases c)
    case (Threw err)
    with first have once: "onDidChangeReviewThreads pr ext e st = (Threw err, st1)"
      by (simp add: onDidChangeReviewThreads_def add)
    from forEach_changed_again [OF changed first] Threw
    have "onDidChangeReviewThreads pr ext e st1 = (Threw err, st1)"
      by (simp add: onDidChangeReviewThreads_def add)
    with once show ?thesis by simp
  next
    case (Returned u)
    let ?st2 = "fold removed_thread ?rs st1"
    from first Returned have first': "forEach_changed ?cs st = (Returned (), st1)" by simp
    then have once: "onDidChangeReviewThreads pr ext e st = (Returned (), ?st2)"
      by (simp add: onDidChangeReviewThreads_def add)
    have frame: "commentThreadCache st1 = commentThreadCache st" "thread_key st1 = thread_key st"
      using forEach_changed_frame [OF first'] forEach_changed_key [OF first'] by simp_all
    from removed have dist: "\<forall>r \<in> set ?rs. cached_ids_distinct st1 (rt_path r)"
      by (simp add: list_all_iff cached_ids_distinct_cong [OF frame])
    have "\<forall>t \<in> set ?cs. reflects ?st2 t \<and> commentThreadCache ?st2 (rt_path t) \<noteq> None"
    proof
      fix t
      assume t: "t \<in> set ?cs"
      with forEach_changed_all_reflected [OF changed first'] have "reflects st1 t" by simp
      then have "reflects ?st2 t"
        using dist by (rule fold_removed_keeps_reflects)
      moreover from forEach_changed_returned [OF first'] t frame
      have "commentThreadCache ?st2 (rt_path t) \<noteq> None"
        by (simp add: fold_removed_frame)
      ultimately show "reflects ?st2 t \<and> commentThreadCache ?st2 (rt_path t) \<noteq> None" ..
    qed
    then have second: "forEach_changed ?cs ?st2 = (Returned (), ?st2)"
      by (rule forEach_changed_reflected)
    then have twice: "onDidChangeReviewThreads pr ext e ?st2 = (Returned (), fold removed_thread ?rs ?st2)"
      by (simp add: onDidChangeReviewThreads_def add)
    have "\<forall>r \<in> set ?rs. cleared ?st2 r"
      using dist by (rule fold_removed_clears)
    from fold_removed_cleared [OF this]
    have same: "commentThreadCache (fold removed_thread ?rs ?st2) = commentThreadCache ?st2"
      "threads (fold removed_thread ?rs ?st2) = threads ?st2"
      by simp_all
    have "live_threads (fold removed_thread ?rs ?st2) = live_threads ?st2"
      using same(2) by (rule live_threads_cong) (simp add: fold_removed_frame)
    with once twice same show ?thesis by simp
  qed
qed


theorem replayed_event_changes_nothing_witness:
  "commentThreadCache
     (snd (onDidChangeReviewThreads reviewed_pr editor_ext resolved_then_removed shown_state))
     ''a.ts'' = Some []
   \<and> commentThreadCache
       (snd (onDidChangeReviewThreads reviewed_pr editor_ext resolved_then_removed
               (snd (onDidChangeReviewThreads reviewed_pr editor_ext resolved_then_removed shown_state))))
     = commentThreadCache
         (snd (onDidChangeReviewThreads reviewed_pr editor_ext resolved_then_removed shown_state))
   \<and> live_threads
       (snd (onDidChangeReviewThreads reviewed_pr editor_ext resolved_then_removed
               (snd (onDidChangeReviewThreads reviewed_pr editor_ext resolved_then_removed shown_state))))
     = live_threads
         (snd (onDidChangeReviewThreads reviewed_pr editor_ext resolved_then_removed shown_state))"
proof -
  have added: "list_all (no_open_view reviewed_pr editor_ext) (ev_added resolved_then_removed)"
    by (simp add: resolved_then_removed_def no_open_view_def)
  have changed: "distinct (map rt_id (ev_changed resolved_then_removed))"
    by (simp add: resolved_then_removed_def)
  have removed: "list_all (\<lambda>r. cached_ids_distinct shown_state (rt_path r))
                   (ev_removed resolved_then_removed)"
    by (simp add: resolved_then_removed_def cached_ids_distinct_def shown_state_def
          review_thread_T1_def)
  have first: "commentThreadCache
     (snd (onDidChangeReviewThreads reviewed_pr editor_ext resolved_then_removed shown_state))
     ''a.ts'' = Some []"
    by (simp add: onDidChangeReviewThreads_def resolved_then_removed_def added_thread_def
          changed_thread_def removed_thread_def thread_has_id_def dispose_def Let_def
          shown_state_def shown_thread_def review_thread_T1_def state_with_def)
  from replayed_event_changes_nothing [OF added changed removed] first show ?thesis
    by simp
qed

text \<open>
  C9 as stated fails for a thread-added event. The cache is built from the review
  threads for the visible head document of the file, so that it shows T1 once; the
  added-event for T1 is then applied again, and the view host shows T1 twice.
\<close>

theorem replayed_added_event_counterexample:
  "live_threads (initializeThreadsInOpenEditors reviewed_pr [head_editor] (state_with [])) = [0]
   \<and> live_threads
       (snd (onDidChangeReviewThreads reviewed_pr editor_ext (added_event review_thread_T1)
               (initializeThreadsInOpenEditors reviewed_pr [head_editor] (state_with []))))
     = [0, 1]"
  by (simp add: initializeThreadsInOpenEditors_def getPREditors_def head_editor_def pr_uri_def
        pr_params_def fromPRUri_def reviewed_pr_def working_pr_def review_thread_T1_def
        open_editor_threads_def threadsByPath_def createVSCodeCommentThreadForReviewThread_def
        state_with_def live_threads_def onDidChangeReviewThreads_def added_event_def
        added_thread_def editor_ext_def plain_ext_def Let_def)

end
